theory Spec2Isabelle
  imports Main "HOL-Library.Word"
begin

section \<open>Errors of the Go runtime and of client-go\<close>

text \<open>
  The error values that reach the package. \<open>CodeExitError\<close> is the struct
  \<^verbatim>\<open>exec.CodeExitError{Err error; Code int}\<close> of k8s.io/client-go/util/exec; it has
  no \<^verbatim>\<open>Unwrap\<close> method. \<open>DeadlineExceeded\<close> and \<open>Canceled\<close> are the two sentinels of
  package context. \<open>Wrapped msg e\<close> is an error with message \<open>msg\<close> whose
  \<^verbatim>\<open>Unwrap\<close> returns \<open>e\<close> (what \<^verbatim>\<open>fmt.Errorf("...%w...")\<close> builds). \<open>ErrorString\<close>
  is any other error, known by its message only. A Go \<^verbatim>\<open>error\<close> that may be nil is a
  \<open>go_error option\<close>.
\<close>

datatype go_error =
    DeadlineExceeded
  | Canceled
  | ErrorString string
  | CodeExitError go_error int
  | Wrapped string go_error

text \<open>\<^verbatim>\<open>err.Error()\<close>; a \<open>CodeExitError\<close> answers with the message of its \<open>Err\<close> field.\<close>

fun Error_msg :: "go_error \<Rightarrow> string" where
  "Error_msg DeadlineExceeded = ''context deadline exceeded''"
| "Error_msg Canceled = ''context canceled''"
| "Error_msg (ErrorString s) = s"
| "Error_msg (CodeExitError e c) = Error_msg e"
| "Error_msg (Wrapped msg e) = msg"

text \<open>
  \<^verbatim>\<open>errors.As(err, &e)\<close> with \<^verbatim>\<open>e\<close> of type \<^verbatim>\<open>exec.CodeExitError\<close>: the first error of
  the \<^verbatim>\<open>Unwrap\<close> chain that is a \<open>CodeExitError\<close>, if any.
\<close>

fun errors_As_CodeExitError :: "go_error \<Rightarrow> (go_error \<times> int) option" where
  "errors_As_CodeExitError (CodeExitError e c) = Some (e, c)"
| "errors_As_CodeExitError (Wrapped msg e) = errors_As_CodeExitError e"
| "errors_As_CodeExitError DeadlineExceeded = None"
| "errors_As_CodeExitError Canceled = None"
| "errors_As_CodeExitError (ErrorString s) = None"

text \<open>\<^verbatim>\<open>errors.Is(err, context.DeadlineExceeded)\<close>; a nil error is never the target.\<close>

fun errors_Is_DeadlineExceeded :: "go_error \<Rightarrow> bool" where
  "errors_Is_DeadlineExceeded DeadlineExceeded = True"
| "errors_Is_DeadlineExceeded (Wrapped msg e) = errors_Is_DeadlineExceeded e"
| "errors_Is_DeadlineExceeded Canceled = False"
| "errors_Is_DeadlineExceeded (ErrorString s) = False"
| "errors_Is_DeadlineExceeded (CodeExitError e c) = False"

text \<open>The \<^verbatim>\<open>%d\<close> verb of \<^verbatim>\<open>fmt.Sprintf\<close> on a Go \<^verbatim>\<open>int\<close>.\<close>

fun fmt_digits :: "nat \<Rightarrow> string" where
  "fmt_digits n =
     (if n < 10 then [''0123456789'' ! n]
      else fmt_digits (n div 10) @ [''0123456789'' ! (n mod 10)])"

declare fmt_digits.simps [simp del]

definition fmt_d :: "int \<Rightarrow> string" where
  "fmt_d i = (if i < 0 then CHR ''-'' # fmt_digits (nat (- i)) else fmt_digits (nat i))"

section \<open>Exit codes\<close>

type_synonym ExitCode = int

abbreviation (input) ExecutionTimeOut :: ExitCode where "ExecutionTimeOut \<equiv> - 2"
abbreviation (input) InternalAppError :: ExitCode where "InternalAppError \<equiv> - 1"
abbreviation (input) Success :: ExitCode where "Success \<equiv> 0"
abbreviation (input) GeneralError :: ExitCode where "GeneralError \<equiv> 1"
abbreviation (input) IncorrectUsage :: ExitCode where "IncorrectUsage \<equiv> 2"
abbreviation (input) CommandCannotExecute :: ExitCode where "CommandCannotExecute \<equiv> 126"
abbreviation (input) CommandNotFound :: ExitCode where "CommandNotFound \<equiv> 127"
abbreviation (input) InvalidArgumentToExit :: ExitCode where "InvalidArgumentToExit \<equiv> 128"

text \<open>The map literal \<^verbatim>\<open>exitCodeDescriptions\<close>, entry by entry in the order of the source.\<close>

definition exitCodeDescriptions_entries :: "(ExitCode \<times> string) list" where
  "exitCodeDescriptions_entries =
    [(- 1, ''Internal app error''),
     (0, ''Success''),
     (1, ''General error, unspecified error''),
     (2, ''Incorrect usage or syntax of the command''),
     (126, ''Command cannot execute''),
     (127, ''Command not found''),
     (128, ''Invalid argument to exit''),
     (130, ''Script terminated by Control-C (SIGINT)''),
     (255, ''Exit status out of range''),
     (129, ''Fatal error signal 1 (SIGHUP)''),
     (131, ''Fatal error signal 3 (SIGQUIT)''),
     (132, ''Fatal error signal 4 (SIGILL)''),
     (133, ''Fatal error signal 5 (SIGTRAP)''),
     (134, ''Fatal error signal 6 (SIGABRT/SIGIOT)''),
     (135, ''Fatal error signal 7 (SIGBUS)''),
     (136, ''Fatal error signal 8 (SIGFPE)''),
     (137, ''Fatal error signal 9 (SIGKILL)''),
     (138, ''Fatal error signal 10 (SIGUSR1)''),
     (139, ''Fatal error signal 11 (SIGSEGV)''),
     (140, ''Fatal error signal 12 (SIGUSR2)''),
     (141, ''Fatal error signal 13 (SIGPIPE)''),
     (142, ''Fatal error signal 14 (SIGALRM)''),
     (143, ''Fatal error signal 15 (SIGTERM)'')]"

definition exitCodeDescriptions :: "ExitCode \<rightharpoonup> string" where
  "exitCodeDescriptions = map_of exitCodeDescriptions_entries"

text \<open>\<^verbatim>\<open>GetExitCode(err error) (ExitCode, string)\<close>; \<open>None\<close> is the nil error.\<close>

definition GetExitCode :: "go_error option \<Rightarrow> ExitCode \<times> string" where
  "GetExitCode err =
     (case (case err of None \<Rightarrow> None | Some x \<Rightarrow> errors_As_CodeExitError x) of
        None \<Rightarrow> (InternalAppError, '''')
      | Some (e_Err, e_Code) \<Rightarrow>
          (case exitCodeDescriptions e_Code of
             None \<Rightarrow> (e_Code, ''Exit code '' @ fmt_d e_Code @ '' description not found!'')
           | Some d \<Rightarrow> (e_Code, d)))"

text \<open>\<^verbatim>\<open>GetExitCodeDescription(code ExitCode) string\<close>.\<close>

definition GetExitCodeDescription :: "ExitCode \<Rightarrow> string" where
  "GetExitCodeDescription code =
     (case exitCodeDescriptions code of None \<Rightarrow> '''' | Some d \<Rightarrow> d)"

section \<open>Strings\<close>

text \<open>
  \<^verbatim>\<open>strings.Split(s, sep)\<close> for a separator of one byte, the only way the package
  calls it (\<^verbatim>\<open>"\n"\<close>): the pieces of \<open>s\<close> between the occurrences of \<open>sep\<close>, in order.
\<close>

fun strings_Split :: "string \<Rightarrow> char \<Rightarrow> string list" where
  "strings_Split [] sep = [[]]"
| "strings_Split (c # cs) sep =
     (if c = sep then [] # strings_Split cs sep
      else (case strings_Split cs sep of
              [] \<Rightarrow> [[c]]
            | l # ls \<Rightarrow> (c # l) # ls))"

text \<open>\<^verbatim>\<open>strings.Join(elems, sep)\<close>.\<close>

fun strings_Join :: "string list \<Rightarrow> string \<Rightarrow> string" where
  "strings_Join [] sep = []"
| "strings_Join [x] sep = x"
| "strings_Join (x # y # ys) sep = x @ sep @ strings_Join (y # ys) sep"

definition newline :: char where
  "newline = CHR 0x0A"

section \<open>The execution outcome\<close>

record ExecutionStatus =
  Pod :: string
  Container :: string
  RetCode :: ExitCode
  Error :: "string list"
  Stdout :: "string list"
  Stderr :: "string list"

definition NewExecutionStatus ::
  "string \<Rightarrow> string \<Rightarrow> ExitCode \<Rightarrow> string \<Rightarrow> string \<Rightarrow> string \<Rightarrow> ExecutionStatus" where
  "NewExecutionStatus pod container retCode error stdout stderr =
     \<lparr>Pod = pod, Container = container, RetCode = retCode,
      Error = strings_Split error newline,
      Stdout = strings_Split stdout newline,
      Stderr = strings_Split stderr newline\<rparr>"

section \<open>Deadlines and the remote exec channel\<close>

text \<open>
  Time is a logical clock in nanoseconds, the unit of \<^verbatim>\<open>time.Duration\<close>. A
  \<^verbatim>\<open>context.Context\<close> is \<open>Background\<close>, never done, or \<open>DoneAt t e\<close>: its \<^verbatim>\<open>Done\<close>
  channel closes at time \<open>t\<close> and \<^verbatim>\<open>Err()\<close> is \<open>e\<close> from then on.
\<close>

definition Second :: int where
  "Second = 1000000000"

datatype Context = Background | DoneAt int go_error

text \<open>
  \<^verbatim>\<open>context.WithTimeout(parent, timeout)\<close> called at time \<open>t\<close>: the deadline is
  \<open>t + timeout\<close> unless the parent is done first.
\<close>

fun WithTimeout :: "Context \<Rightarrow> int \<Rightarrow> nat \<Rightarrow> Context" where
  "WithTimeout Background timeout t = DoneAt (int t + timeout) DeadlineExceeded"
| "WithTimeout (DoneAt d e) timeout t =
     (if d \<le> int t + timeout then DoneAt d e else DoneAt (int t + timeout) DeadlineExceeded)"

text \<open>
  The answer of the transport to one stream, which is client-go and the cluster, not this
  package. When nothing interrupts the command it runs for \<open>duration\<close>, by the elapsed
  time \<open>d\<close> it has written \<open>written d\<close> to standard output and standard error, and the
  stream then ends with \<open>result\<close>: nil after exit status 0, a \<open>CodeExitError\<close> after
  another exit status, any other error for a failure of the transport. When the context
  of the call is done before that, at time \<open>d\<close> with error \<open>e\<close>, the call started at time
  \<open>t\<close> returns \<open>interrupted d e t\<close>: an error or none, what it wrote, and the time of
  return. Nothing is assumed about that answer: the transport may return
  \<^verbatim>\<open>ctx.Err()\<close> or an error of its own, at the deadline or after it.
\<close>

record RemoteRun =
  duration :: nat
  written :: "nat \<Rightarrow> string \<times> string"
  result :: "go_error option"
  interrupted :: "int \<Rightarrow> go_error \<Rightarrow> nat \<Rightarrow> go_error option \<times> (string \<times> string) \<times> nat"

text \<open>
  The answer of the cluster to one exec request: \<^verbatim>\<open>remotecommand.NewSPDYExecutor\<close>
  fails, or the stream is opened and the command runs.
\<close>

datatype RemoteResponse = NoExecutor go_error | Streams RemoteRun

text \<open>
  \<^verbatim>\<open>executor.StreamWithContext(ctx, ...)\<close> started at time \<open>t\<close>. A command that ends
  before \<open>ctx\<close> is done ends the stream; otherwise the call returns what the transport
  answers to a context that is done. The result is the error, the two texts written and
  the time of return.
\<close>

definition StreamWithContext ::
  "Context \<Rightarrow> nat \<Rightarrow> RemoteRun \<Rightarrow> go_error option \<times> (string \<times> string) \<times> nat" where
  "StreamWithContext ctx t run =
     (case ctx of
        Background \<Rightarrow> (result run, written run (duration run), t + duration run)
      | DoneAt d e \<Rightarrow>
          if int (t + duration run) \<le> d
          then (result run, written run (duration run), t + duration run)
          else interrupted run d e t)"

text \<open>
  The receiver \<^verbatim>\<open>k8s *K8SExec\<close>: its namespace and, for \<^verbatim>\<open>Config\<close> and \<^verbatim>\<open>Clientset\<close>,
  the answers of the cluster they give access to. The three group listings and the pod
  listing by label selector are those of the namespace at the time of the call;
  \<open>RemoteExec pod container cmd stdin tty\<close> is the answer to an exec request.
\<close>

record coreV1_Pod =
  Name :: string

record ReplicaGroup =
  MatchLabels :: "(string \<times> string) list"

record K8SExec =
  Namespace :: string
  ListDeployments :: "go_error + ReplicaGroup list"
  ListStatefulSets :: "go_error + ReplicaGroup list"
  ListDaemonSets :: "go_error + ReplicaGroup list"
  ListPods :: "string \<Rightarrow> go_error + coreV1_Pod list"
  RemoteExec :: "string \<Rightarrow> string \<Rightarrow> string list \<Rightarrow> string option \<Rightarrow> bool \<Rightarrow> RemoteResponse"

text \<open>
  The local variables a caller shares with \<^verbatim>\<open>exec\<close>: the clock and the two
  \<^verbatim>\<open>bytes.Buffer\<close>s, which every write appends to.
\<close>

record Frame =
  now :: nat
  stdout :: string
  stderr :: string

text \<open>\<^verbatim>\<open>(k8s *K8SExec) exec(ctx, podName, containerName, cmd, stdin, stdout, stderr, tty)\<close>.\<close>

definition exec ::
  "K8SExec \<Rightarrow> Context \<Rightarrow> string \<Rightarrow> string \<Rightarrow> string list \<Rightarrow> string option \<Rightarrow> bool \<Rightarrow> Frame
     \<Rightarrow> ExitCode \<times> go_error option \<times> Frame" where
  "exec k8s ctx podName containerName cmd stdin tty fr =
     (case RemoteExec k8s podName containerName cmd stdin tty of
        NoExecutor err \<Rightarrow> (InternalAppError, Some err, fr)
      | Streams run \<Rightarrow>
          (case StreamWithContext ctx (now fr) run of
             (err, (out, errout), t) \<Rightarrow>
               (let fr' = \<lparr>now = t, stdout = stdout fr @ out, stderr = stderr fr @ errout\<rparr>
                in case err of
                     Some e \<Rightarrow>
                       (case errors_As_CodeExitError e of
                          Some (exitError_Err, exitError_Code) \<Rightarrow>
                            (exitError_Code, Some (CodeExitError exitError_Err exitError_Code), fr')
                        | None \<Rightarrow> (InternalAppError, Some e, fr'))
                   | None \<Rightarrow> (Success, None, fr'))))"

text \<open>
  \<^verbatim>\<open>Exec(podName, containerName, args, stdin, timeout)\<close>, called at time \<open>t\<close>; the
  result is the outcome and the time of return.
\<close>

definition Exec ::
  "K8SExec \<Rightarrow> string \<Rightarrow> string \<Rightarrow> string list \<Rightarrow> string option \<Rightarrow> int \<Rightarrow> nat
     \<Rightarrow> ExecutionStatus \<times> nat" where
  "Exec k8s podName containerName args stdin timeout t =
     (let ctx = WithTimeout Background timeout t
      in case exec k8s ctx podName containerName args stdin False
                \<lparr>now = t, stdout = [], stderr = []\<rparr> of
           (retCode, err, fr) \<Rightarrow>
             (let errMessage = (case err of Some e \<Rightarrow> Error_msg e | None \<Rightarrow> []);
                  retCode' = (if (case err of Some e \<Rightarrow> errors_Is_DeadlineExceeded e | None \<Rightarrow> False)
                              then ExecutionTimeOut else retCode)
              in (NewExecutionStatus podName containerName retCode' errMessage
                    (stdout fr) (stderr fr), now fr)))"

text \<open>\<^verbatim>\<open>ExecWithContext(ctx, podName, containerName, args, stdin)\<close>, called at time \<open>t\<close>.\<close>

definition ExecWithContext ::
  "K8SExec \<Rightarrow> Context \<Rightarrow> string \<Rightarrow> string \<Rightarrow> string list \<Rightarrow> string option \<Rightarrow> nat
     \<Rightarrow> ExecutionStatus \<times> nat" where
  "ExecWithContext k8s ctx podName containerName args stdin t =
     (case exec k8s ctx podName containerName args stdin False
             \<lparr>now = t, stdout = [], stderr = []\<rparr> of
        (retCode, err, fr) \<Rightarrow>
          (let errMessage = (case err of Some e \<Rightarrow> Error_msg e | None \<Rightarrow> [])
           in (NewExecutionStatus podName containerName retCode errMessage
                 (stdout fr) (stderr fr), now fr)))"

section \<open>The file probes\<close>

text \<open>
  Each probe is called at time \<open>t\<close> and returns its Go result with the time of return.
  The context is built once, on entry, and the two buffers are declared once: every
  attempt of a probe is given the same three.
\<close>

text \<open>\<^verbatim>\<open>fmt.Sprintf("while IFS= read -r line; do echo \"$line\"; done < '%s'", filePath)\<close>.\<close>

definition read_loop_script :: "string \<Rightarrow> string" where
  "read_loop_script filePath =
     ''while IFS= read -r line; do echo '' @ [CHR 0x22] @ ''$line'' @ [CHR 0x22]
       @ ''; done < '' @ [CHR 0x27] @ filePath @ [CHR 0x27]"

definition ReadFile ::
  "K8SExec \<Rightarrow> string \<Rightarrow> string \<Rightarrow> string \<Rightarrow> nat \<Rightarrow> (string \<times> go_error option) \<times> nat" where
  "ReadFile k8s podName containerName filePath t =
     (let ctx = WithTimeout Background (5 * Second) t;
          fr = \<lparr>now = t, stdout = [], stderr = []\<rparr>;
          (retCode, err, fr) =
             exec k8s ctx podName containerName [''cat'', filePath] None False fr;
          (retCode, err, fr) =
             (if retCode \<noteq> Success
              then exec k8s ctx podName containerName [''sed'', [], filePath] None False fr
              else (retCode, err, fr));
          (retCode, err, fr) =
             (if retCode \<noteq> Success
              then exec k8s ctx podName containerName [''tail'', ''-n'', ''+1'', filePath]
                     None False fr
              else (retCode, err, fr));
          (retCode, err, fr) =
             (if retCode \<noteq> Success
              then exec k8s ctx podName containerName
                     [''sh'', ''-c'', read_loop_script filePath] None False fr
              else (retCode, err, fr))
      in ((stdout fr, err), now fr))"

text \<open>
  \<^verbatim>\<open>int(permStr[i] - '0') & readBit != 0\<close>: the subtraction is on bytes and wraps.
\<close>

definition perm_has_read_bit :: "char \<Rightarrow> bool" where
  "perm_has_read_bit c = (and (uint ((of_char c :: 8 word) - 0x30)) 4 \<noteq> 0)"

definition CheckIfFilePathIsReadable ::
  "K8SExec \<Rightarrow> string \<Rightarrow> string \<Rightarrow> string \<Rightarrow> nat \<Rightarrow> bool \<times> nat" where
  "CheckIfFilePathIsReadable k8s podName containerName filePath t =
     (let ctx = WithTimeout Background (5 * Second) t;
          fr = \<lparr>now = t, stdout = [], stderr = []\<rparr>;
          (retCode, err, fr) =
             exec k8s ctx podName containerName [''stat'', ''-c'', ''%a'', filePath]
               None False fr
      in if retCode \<noteq> Success
         then (let (retCode, err, fr) =
                     exec k8s ctx podName containerName
                       [''sh'', ''-c'', ''test -r '' @ [CHR 0x27] @ filePath @ [CHR 0x27]]
                       None False fr
               in (retCode = Success, now fr))
         else (let permStr = stdout fr
               in if length permStr \<ge> 3
                  then (let permStr = (if length permStr = 4 then drop 1 permStr else permStr)
                        in (perm_has_read_bit (permStr ! 0) \<or> perm_has_read_bit (permStr ! 1)
                              \<or> perm_has_read_bit (permStr ! 2), now fr))
                  else (False, now fr)))"

definition CheckIfFilePathExists ::
  "K8SExec \<Rightarrow> string \<Rightarrow> string \<Rightarrow> string \<Rightarrow> nat \<Rightarrow> bool \<times> nat" where
  "CheckIfFilePathExists k8s podName containerName filePath t =
     (let ctx = WithTimeout Background (5 * Second) t;
          fr = \<lparr>now = t, stdout = [], stderr = []\<rparr>;
          (retCode, err, fr) =
             exec k8s ctx podName containerName [''stat'', filePath] None False fr;
          (retCode, err, fr) =
             (if retCode \<noteq> Success
              then exec k8s ctx podName containerName
                     [''sh'', ''-c'', ''[ -f '' @ [CHR 0x27] @ filePath @ [CHR 0x27] @ '' ]'']
                     None False fr
              else (retCode, err, fr))
      in (retCode = Success, now fr))"

definition CheckUtilInContainer ::
  "K8SExec \<Rightarrow> string \<Rightarrow> string \<Rightarrow> string \<Rightarrow> nat \<Rightarrow> bool \<times> nat" where
  "CheckUtilInContainer k8s podName containerName util t =
     (let ctx = WithTimeout Background (5 * Second) t;
          fr = \<lparr>now = t, stdout = [], stderr = []\<rparr>;
          (retCode, err, fr) = exec k8s ctx podName containerName [util] None False fr
      in (retCode \<noteq> CommandNotFound \<and> retCode \<noteq> CommandCannotExecute
            \<and> retCode \<noteq> InternalAppError, now fr))"

section \<open>Unique pods\<close>

text \<open>
  \<^verbatim>\<open>mapToLabelSelector(labels)\<close>. The labels are listed in the order in which the
  \<^verbatim>\<open>range\<close> loop over the Go map visits them.
\<close>

definition mapToLabelSelector :: "(string \<times> string) list \<Rightarrow> string" where
  "mapToLabelSelector labels =
     strings_Join (map (\<lambda>(key, val). key @ ''='' @ val) labels) '',''"

text \<open>\<^verbatim>\<open>(k8s *K8SExec) GetPods(options)\<close> with \<^verbatim>\<open>options.LabelSelector = selector\<close>.\<close>

definition GetPods :: "K8SExec \<Rightarrow> string \<Rightarrow> go_error + coreV1_Pod list" where
  "GetPods k8s selector = ListPods k8s selector"

text \<open>\<^verbatim>\<open>for _, pod := range pods { m[pod.Name]++ }\<close> on a \<^verbatim>\<open>map[string]int\<close>.\<close>

fun count_names :: "(string \<rightharpoonup> int) \<Rightarrow> coreV1_Pod list \<Rightarrow> (string \<rightharpoonup> int)" where
  "count_names m [] = m"
| "count_names m (pod # pods) =
     count_names (m(Name pod \<mapsto> (case m (Name pod) of None \<Rightarrow> 0 | Some n \<Rightarrow> n) + 1)) pods"

text \<open>
  The loop over the groups of one kind, which the source writes three times, for
  deployments, stateful sets and daemon sets: \<open>uniquePods\<close> is the list shared by the
  three loops, \<open>m\<close> the membership map of the kind. The selector of a group read from
  the API server is never nil, which the server's validation of the three kinds ensures.
\<close>

fun group_loop ::
  "K8SExec \<Rightarrow> ReplicaGroup list \<Rightarrow> coreV1_Pod list \<times> (string \<rightharpoonup> int)
     \<Rightarrow> coreV1_Pod list \<times> (string \<rightharpoonup> int)" where
  "group_loop k8s [] (uniquePods, m) = (uniquePods, m)"
| "group_loop k8s (g # gs) (uniquePods, m) =
     (case GetPods k8s (mapToLabelSelector (MatchLabels g)) of
        Inl err \<Rightarrow> group_loop k8s gs (uniquePods, m)
      | Inr pods \<Rightarrow>
          group_loop k8s gs
            (if length pods > 0 then uniquePods @ [pods ! 0] else uniquePods,
             count_names m pods))"

text \<open>
  \<^verbatim>\<open>(k8s *K8SExec) GetUniquePods() (int, []coreV1.Pod, error)\<close>. The last listing,
  with \<^verbatim>\<open>metaV1.ListOptions{}\<close>, is the listing of the pods under the empty selector.
\<close>

definition GetUniquePods :: "K8SExec \<Rightarrow> int \<times> coreV1_Pod list \<times> go_error option" where
  "GetUniquePods k8s =
     (case ListDeployments k8s of
        Inl err \<Rightarrow> (0, [], Some err)
      | Inr deployments \<Rightarrow>
     (case group_loop k8s deployments ([], Map.empty) of (uniquePods, deploymentPods) \<Rightarrow>
     (case ListStatefulSets k8s of
        Inl err \<Rightarrow> (0, [], Some err)
      | Inr statefulSets \<Rightarrow>
     (case group_loop k8s statefulSets (uniquePods, Map.empty) of
        (uniquePods, statefulSetsPods) \<Rightarrow>
     (case ListDaemonSets k8s of
        Inl err \<Rightarrow> (0, [], Some err)
      | Inr daemonSets \<Rightarrow>
     (case group_loop k8s daemonSets (uniquePods, Map.empty) of
        (uniquePods, daemonSetsPods) \<Rightarrow>
     (case ListPods k8s [] of
        Inl err \<Rightarrow> (0, [], Some err)
      | Inr podsList \<Rightarrow>
          (int (length podsList),
           uniquePods @
             filter (\<lambda>pod. deploymentPods (Name pod) = None
                         \<and> statefulSetsPods (Name pod) = None
                         \<and> daemonSetsPods (Name pod) = None) podsList,
           None))))))))"

section \<open>The token bucket\<close>

text \<open>
  The buffered channel \<^verbatim>\<open>tokens chan struct{}\<close> is its buffer, a list of units, and
  its capacity. The refill goroutine is at one of three places: waiting for the ticker
  (\<open>Ticking\<close>), between its test \<^verbatim>\<open>len(bucket.tokens) < cap(bucket.tokens)\<close> and the
  send that follows (\<open>Sending\<close>), or stopped by a panic before its first tick
  (\<open>Panicked\<close>). It is the only user of the mutex, so a \<^verbatim>\<open>Lock\<close> never waits.
\<close>

datatype refill_pc = Ticking | Sending | Panicked

record TokenBucket =
  tokens :: "unit list"
  capacity :: nat
  refill :: refill_pc

datatype go_panic = MakeChanSizeOutOfRange

text \<open>
  \<^verbatim>\<open>NewTokenBucket(rate, burst)\<close>. \<^verbatim>\<open>make(chan struct{}, burst)\<close> panics on a negative
  size. In the goroutine, \<^verbatim>\<open>time.Second / time.Duration(rate)\<close> panics for rate 0 and
  \<^verbatim>\<open>time.NewTicker\<close> panics on an interval that is not positive.
\<close>

definition ticker_starts :: "int \<Rightarrow> bool" where
  "ticker_starts rate = (rate > 0 \<and> Second div rate > 0)"

definition NewTokenBucket :: "int \<Rightarrow> int \<Rightarrow> go_panic + TokenBucket" where
  "NewTokenBucket rate burst =
     (if burst < 0 then Inl MakeChanSizeOutOfRange
      else Inr \<lparr>tokens = replicate (nat burst) (),
                capacity = nat burst,
                refill = (if ticker_starts rate then Ticking else Panicked)\<rparr>)"

text \<open>
  The atomic steps of the processes that share the bucket: a \<^verbatim>\<open>Wait\<close> of some caller
  receiving its token, the refill goroutine taking a tick and testing the length, and
  the refill goroutine sending. \<open>step\<close> is \<open>None\<close> where the step cannot be taken: a
  receive on an empty channel and a send on a full one block.
\<close>

datatype event = EvWait | EvTick | EvSend

fun step :: "TokenBucket \<Rightarrow> event \<Rightarrow> TokenBucket option" where
  "step b EvWait =
     (case tokens b of [] \<Rightarrow> None | x # xs \<Rightarrow> Some (b\<lparr>tokens := xs\<rparr>))"
| "step b EvTick =
     (if refill b = Ticking
      then Some (if length (tokens b) < capacity b then b\<lparr>refill := Sending\<rparr> else b)
      else None)"
| "step b EvSend =
     (if refill b = Sending \<and> length (tokens b) < capacity b
      then Some (b\<lparr>tokens := tokens b @ [()], refill := Ticking\<rparr>)
      else None)"

text \<open>
  A schedule is a list of events; an event that cannot be taken where the schedule
  puts it does not happen there.
\<close>

fun run_events :: "TokenBucket \<Rightarrow> event list \<Rightarrow> TokenBucket" where
  "run_events b [] = b"
| "run_events b (ev # evs) =
     run_events (case step b ev of None \<Rightarrow> b | Some b' \<Rightarrow> b') evs"

section \<open>What the loops compute\<close>

text \<open>
  The pods that the loop over the groups of one kind appends, the first pod of every
  listing that succeeds and is not empty, and the names the loop enters into the
  membership map of the kind.
\<close>

fun representatives :: "K8SExec \<Rightarrow> ReplicaGroup list \<Rightarrow> coreV1_Pod list" where
  "representatives k8s [] = []"
| "representatives k8s (g # gs) =
     (case ListPods k8s (mapToLabelSelector (MatchLabels g)) of
        Inl err \<Rightarrow> []
      | Inr pods \<Rightarrow> take 1 pods) @ representatives k8s gs"

fun members :: "K8SExec \<Rightarrow> ReplicaGroup list \<Rightarrow> string set" where
  "members k8s [] = {}"
| "members k8s (g # gs) =
     (case ListPods k8s (mapToLabelSelector (MatchLabels g)) of
        Inl err \<Rightarrow> {}
      | Inr pods \<Rightarrow> Name ` set pods) \<union> members k8s gs"

text \<open>
  The invariant of the token bucket: the buffer holds no more than its capacity, and
  while the refill goroutine is between its test and its send there is room for the send.
\<close>

definition bucket_inv :: "TokenBucket \<Rightarrow> bool" where
  "bucket_inv b =
     (length (tokens b) \<le> capacity b
      \<and> (if refill b = Sending then length (tokens b) < capacity b else True))"

section \<open>Sample clusters\<close>

definition sample_k8s :: "(string list \<Rightarrow> RemoteResponse) \<Rightarrow> K8SExec" where
  "sample_k8s remote =
     \<lparr>Namespace = ''default'',
      ListDeployments = Inr [], ListStatefulSets = Inr [], ListDaemonSets = Inr [],
      ListPods = (\<lambda>selector. Inr []),
      RemoteExec = (\<lambda>pod container cmd stdin tty. remote cmd)\<rparr>"

text \<open>
  A sample answer of the transport to a context that is done. A request made when the
  context is already done is refused with an error of the transport; a stream that is
  open when the context is done is given up with \<^verbatim>\<open>ctx.Err()\<close>, at the deadline, and
  keeps what had been written.
\<close>

definition given_up ::
  "(nat \<Rightarrow> string \<times> string) \<Rightarrow> int \<Rightarrow> go_error \<Rightarrow> nat
     \<Rightarrow> go_error option \<times> (string \<times> string) \<times> nat" where
  "given_up w d e t =
     (if d \<le> int t
      then (Some (ErrorString ''error sending request: context deadline exceeded''), ([], []), t)
      else (Some e, w (nat (d - int t)), nat d))"

definition sleeper :: "string list \<Rightarrow> RemoteResponse" where
  "sleeper cmd =
     Streams \<lparr>duration = 2000000000,
              written = (\<lambda>d. if d < 2000000000 then (''par'', ''warn'') else (''partial'', ''warning'')),
              result = None,
              interrupted = given_up
                (\<lambda>d. if d < 2000000000 then (''par'', ''warn'') else (''partial'', ''warning''))\<rparr>"

definition exit_run :: "int \<Rightarrow> RemoteRun" where
  "exit_run n =
     \<lparr>duration = 1000000,
      written = (\<lambda>d. ([], ''usage'')),
      result = Some (CodeExitError (ErrorString ''command terminated with exit code'') n),
      interrupted = given_up (\<lambda>d. ([], []))\<rparr>"

definition exits_with :: "int \<Rightarrow> string list \<Rightarrow> RemoteResponse" where
  "exits_with n cmd = Streams (exit_run n)"

definition partial_cat :: "string list \<Rightarrow> RemoteResponse" where
  "partial_cat cmd =
     (if hd cmd = ''cat''
      then Streams \<lparr>duration = 1000000,
                    written = (\<lambda>d. (''par'', ''cat: read error'')),
                    result = Some (CodeExitError
                               (ErrorString ''command terminated with exit code 1'') 1),
                    interrupted = given_up (\<lambda>d. ([], []))\<rparr>
      else if hd cmd = ''sed''
      then Streams \<lparr>duration = 1000000,
                    written = (\<lambda>d. (''whole file'', [])),
                    result = None,
                    interrupted = given_up (\<lambda>d. ([], []))\<rparr>
      else exits_with 127 cmd)"

text \<open>
  A container without \<open>stat\<close> behind a slow connection: every command takes three
  seconds; \<open>stat\<close> is not found, any other command exits with status 0.
\<close>

definition slow_without_stat :: "string list \<Rightarrow> RemoteResponse" where
  "slow_without_stat cmd =
     (if hd cmd = ''stat''
      then Streams \<lparr>duration = 3000000000,
                    written = (\<lambda>d. ([], [])),
                    result = Some (CodeExitError
                               (ErrorString ''command terminated with exit code 127'') 127),
                    interrupted = given_up (\<lambda>d. ([], []))\<rparr>
      else Streams \<lparr>duration = 3000000000,
                    written = (\<lambda>d. ([], [])),
                    result = None,
                    interrupted = given_up (\<lambda>d. ([], []))\<rparr>)"

definition pod_named :: "string \<Rightarrow> coreV1_Pod" where
  "pod_named n = \<lparr>Name = n\<rparr>"

definition group_selecting :: "string \<Rightarrow> string \<Rightarrow> ReplicaGroup" where
  "group_selecting key val = \<lparr>MatchLabels = [(key, val)]\<rparr>"

definition overlap_k8s :: K8SExec where
  "overlap_k8s =
     \<lparr>Namespace = ''default'',
      ListDeployments = Inr [group_selecting ''app'' ''a'', group_selecting ''tier'' ''b''],
      ListStatefulSets = Inr [],
      ListDaemonSets = Inr [],
      ListPods = (\<lambda>selector.
         if selector = ''app=a''
         then Inr [pod_named ''shared'', pod_named ''a1'', pod_named ''a2'']
         else if selector = ''tier=b''
         then Inr [pod_named ''shared'', pod_named ''b1'', pod_named ''b2'']
         else if selector = []
         then Inr [pod_named ''shared'', pod_named ''a1'', pod_named ''a2'',
                   pod_named ''b1'', pod_named ''b2'', pod_named ''solo'']
         else Inr []),
      RemoteExec = (\<lambda>pod container cmd stdin tty. NoExecutor (ErrorString ''no route''))\<rparr>"

definition flaky_k8s :: "ReplicaGroup list \<Rightarrow> K8SExec" where
  "flaky_k8s deployments =
     \<lparr>Namespace = ''default'',
      ListDeployments = Inr deployments,
      ListStatefulSets = Inr [],
      ListDaemonSets = Inr [],
      ListPods = (\<lambda>selector.
         if selector = ''app=a'' then Inr [pod_named ''a1'', pod_named ''a2'']
         else if selector = ''app=down'' then Inl (ErrorString ''etcd timeout'')
         else if selector = [] then Inr [pod_named ''a1'', pod_named ''a2'', pod_named ''solo'']
         else Inr []),
      RemoteExec = (\<lambda>pod container cmd stdin tty. NoExecutor (ErrorString ''no route''))\<rparr>"


section \<open>Auxiliary facts\<close>

lemma Split_not_Nil: "strings_Split s c \<noteq> []"
  by (induction s) (auto split: list.splits)

lemma Split_Join: "strings_Join (strings_Split s c) [c] = s"
proof (induction s)
  case Nil
  then show ?case by simp
next
  case (Cons a s)
  obtain l ls where sp: "strings_Split s c = l # ls"
    using Split_not_Nil [of s c] by (cases "strings_Split s c") auto
  show ?case
  proof (cases "a = c")
    case True
    with Cons sp show ?thesis by simp
  next
    case False
    with Cons sp show ?thesis by (cases ls) auto
  qed
qed

lemma Split_no_sep: "l \<in> set (strings_Split s c) \<Longrightarrow> c \<notin> set l"
proof (induction s arbitrary: l)
  case Nil
  then show ?case by simp
next
  case (Cons a s)
  then show ?case
    by (cases "strings_Split s c") (auto split: if_splits)
qed

lemma Split_length: "length (strings_Split s c) = Suc (count_list s c)"
  by (induction s) (auto split: list.splits simp: Split_not_Nil)

lemma entries_distinct: "distinct (map fst exitCodeDescriptions_entries)"
  by (simp add: exitCodeDescriptions_entries_def)

lemma descriptions_Some:
  "(n, d) \<in> set exitCodeDescriptions_entries \<Longrightarrow> exitCodeDescriptions n = Some d"
  by (simp add: exitCodeDescriptions_def map_of_eq_Some_iff [OF entries_distinct])

lemma descriptions_None:
  "n \<notin> fst ` set exitCodeDescriptions_entries \<Longrightarrow> exitCodeDescriptions n = None"
  by (simp add: exitCodeDescriptions_def map_of_eq_None_iff)

lemma As_wrapped_exit:
  "errors_As_CodeExitError (foldr Wrapped msgs (CodeExitError e n)) = Some (e, n)"
  by (induction msgs) simp_all

lemma As_wrapped_other:
  "b \<in> {DeadlineExceeded, Canceled} \<union> range ErrorString \<Longrightarrow>
   errors_As_CodeExitError (foldr Wrapped msgs b) = None"
  by (induction msgs) auto

lemma go_error_shape:
  "\<exists>msgs b. x = foldr Wrapped msgs b \<and>
     (b \<in> {DeadlineExceeded, Canceled} \<union> range ErrorString \<or> (\<exists>e n. b = CodeExitError e n))"
proof (induction x)
  case (Wrapped msg x)
  then obtain msgs b where "x = foldr Wrapped msgs b"
    and "b \<in> {DeadlineExceeded, Canceled} \<union> range ErrorString \<or> (\<exists>e n. b = CodeExitError e n)"
    by blast
  then have "Wrapped msg x = foldr Wrapped (msg # msgs) b" by simp
  then show ?case using \<open>b \<in> _ \<or> _\<close> by blast
next
  case DeadlineExceeded
  have "DeadlineExceeded = foldr Wrapped [] DeadlineExceeded" by simp
  then show ?case by blast
next
  case Canceled
  have "Canceled = foldr Wrapped [] Canceled" by simp
  then show ?case by blast
next
  case (ErrorString s)
  have "ErrorString s = foldr Wrapped [] (ErrorString s)" by simp
  then show ?case by blast
next
  case (CodeExitError x n)
  have "CodeExitError x n = foldr Wrapped [] (CodeExitError x n)" by simp
  then show ?case by blast
qed

text \<open>How \<open>exec\<close> and its callers classify the end of a stream.\<close>

lemma exec_code:
  "RemoteExec k8s pod container cmd stdin tty = Streams run \<Longrightarrow>
   StreamWithContext ctx (now fr) run = (Some (foldr Wrapped msgs (CodeExitError e n)), w, t') \<Longrightarrow>
   fst (exec k8s ctx pod container cmd stdin tty fr) = n"
  by (simp add: exec_def As_wrapped_exit split: prod.splits)

lemma Stream_in_time:
  "int (t + duration run) \<le> d \<Longrightarrow>
   StreamWithContext (DoneAt d e) t run = (result run, written run (duration run), t + duration run)"
  by (simp add: StreamWithContext_def)

lemma Is_DeadlineExceeded_not_exit:
  "errors_Is_DeadlineExceeded e \<Longrightarrow> errors_As_CodeExitError e = None"
  by (induction e) simp_all

text \<open>
  \<open>Exec\<close> on a command that outlasts the timeout, when the transport answers with an
  error that is the expired deadline: the status is \<open>ExecutionTimeOut\<close> and the outcome
  holds what the call wrote.
\<close>

lemma Exec_deadline:
  assumes "RemoteExec k8s pod container args stdin False = Streams run"
    and "timeout < int (duration run)"
    and "interrupted run (int t + timeout) DeadlineExceeded t = (Some e, w, t')"
    and "errors_Is_DeadlineExceeded e"
  shows "RetCode (fst (Exec k8s pod container args stdin timeout t)) = ExecutionTimeOut"
    and "Stdout (fst (Exec k8s pod container args stdin timeout t)) =
           strings_Split (fst w) newline"
    and "Stderr (fst (Exec k8s pod container args stdin timeout t)) =
           strings_Split (snd w) newline"
  using assms Is_DeadlineExceeded_not_exit [of e]
  by (auto simp: Exec_def exec_def StreamWithContext_def NewExecutionStatus_def Let_def
      split: prod.splits option.splits)

text \<open>The loop over the groups of one kind.\<close>

lemma dom_count_names: "dom (count_names m pods) = dom m \<union> Name ` set pods"
  by (induction pods arbitrary: m) auto

lemma group_loop_append:
  "group_loop k8s (gs1 @ gs2) acc = group_loop k8s gs2 (group_loop k8s gs1 acc)"
proof (induction gs1 arbitrary: acc)
  case Nil
  then show ?case by (cases acc) simp
next
  case (Cons g gs1)
  obtain u m where acc: "acc = (u, m)" by (cases acc)
  show ?case
    unfolding acc by (simp add: Cons.IH split: sum.splits)
qed

lemma group_loop_skip:
  assumes "ListPods k8s (mapToLabelSelector (MatchLabels g)) = Inl e
           \<or> ListPods k8s (mapToLabelSelector (MatchLabels g)) = Inr []"
  shows "group_loop k8s (gs1 @ g # gs2) acc = group_loop k8s (gs1 @ gs2) acc"
proof -
  obtain u m where r: "group_loop k8s gs1 acc = (u, m)" by (cases "group_loop k8s gs1 acc")
  from assms have "group_loop k8s (g # gs2) (u, m) = group_loop k8s gs2 (u, m)"
    by (auto simp: GetPods_def)
  then show ?thesis by (simp add: group_loop_append r)
qed

lemma group_loop_only_ListPods:
  "ListPods k8s' = ListPods k8s \<Longrightarrow> group_loop k8s' gs acc = group_loop k8s gs acc"
proof (induction gs arbitrary: acc)
  case Nil
  then show ?case by (cases acc) simp
next
  case (Cons g gs)
  obtain u m where acc: "acc = (u, m)" by (cases acc)
  from Cons show ?case
    unfolding acc by (simp add: GetPods_def split: sum.splits)
qed

lemma take1: "take (Suc 0) pods = (if length pods > 0 then [pods ! 0] else [])"
  by (cases pods) auto

lemma group_loop_result:
  "fst (group_loop k8s gs (u, m)) = u @ representatives k8s gs
   \<and> dom (snd (group_loop k8s gs (u, m))) = dom m \<union> members k8s gs"
proof (induction gs arbitrary: u m)
  case Nil
  then show ?case by simp
next
  case (Cons g gs)
  show ?case
  proof (cases "ListPods k8s (mapToLabelSelector (MatchLabels g))")
    case (Inl e)
    then show ?thesis using Cons [of u m] by (simp add: GetPods_def)
  next
    case (Inr pods)
    then show ?thesis
      using Cons [of "if length pods > 0 then u @ [pods ! 0] else u" "count_names m pods"]
      by (auto simp: GetPods_def dom_count_names take1)
  qed
qed

lemma GetUniquePods_result:
  assumes "ListDeployments k8s = Inr ds" and "ListStatefulSets k8s = Inr ss"
    and "ListDaemonSets k8s = Inr ns" and "ListPods k8s [] = Inr podsList"
  shows "GetUniquePods k8s =
     (int (length podsList),
      representatives k8s ds @ representatives k8s ss @ representatives k8s ns @
        filter (\<lambda>pod. Name pod \<notin> members k8s ds \<union> members k8s ss \<union> members k8s ns) podsList,
      None)"
proof -
  obtain u1 m1 where 1: "group_loop k8s ds ([], Map.empty) = (u1, m1)"
    by (cases "group_loop k8s ds ([], Map.empty)")
  obtain u2 m2 where 2: "group_loop k8s ss (u1, Map.empty) = (u2, m2)"
    by (cases "group_loop k8s ss (u1, Map.empty)")
  obtain u3 m3 where 3: "group_loop k8s ns (u2, Map.empty) = (u3, m3)"
    by (cases "group_loop k8s ns (u2, Map.empty)")
  from group_loop_result [of k8s ds "[]" Map.empty] 1
  have r1: "u1 = representatives k8s ds" "dom m1 = members k8s ds" by simp_all
  from group_loop_result [of k8s ss u1 Map.empty] 2
  have r2: "u2 = u1 @ representatives k8s ss" "dom m2 = members k8s ss" by simp_all
  from group_loop_result [of k8s ns u2 Map.empty] 3
  have r3: "u3 = u2 @ representatives k8s ns" "dom m3 = members k8s ns" by simp_all
  have f: "(\<lambda>pod. m1 (Name pod) = None \<and> m2 (Name pod) = None \<and> m3 (Name pod) = None) =
      (\<lambda>pod. Name pod \<notin> members k8s ds \<union> members k8s ss \<union> members k8s ns)"
    using r1(2) [symmetric] r2(2) [symmetric] r3(2) [symmetric]
    by (simp add: fun_eq_iff domIff)
  have "GetUniquePods k8s =
      (int (length podsList),
       u3 @ filter (\<lambda>pod. m1 (Name pod) = None \<and> m2 (Name pod) = None \<and> m3 (Name pod) = None)
              podsList,
       None)"
    using assms by (simp add: GetUniquePods_def 1 2 3)
  then show ?thesis
    unfolding f by (simp add: r1(1) r2(1) r3(1))
qed

text \<open>Every step of the token bucket keeps the invariant and the capacity.\<close>

lemma step_inv:
  "bucket_inv b \<Longrightarrow> step b ev = Some b' \<Longrightarrow> bucket_inv b' \<and> capacity b' = capacity b"
  by (cases ev) (auto simp: bucket_inv_def split: list.splits if_splits)

lemma run_events_inv:
  "bucket_inv b \<Longrightarrow>
   bucket_inv (run_events b evs) \<and> capacity (run_events b evs) = capacity b"
proof (induction evs arbitrary: b)
  case Nil
  then show ?case by simp
next
  case (Cons ev evs)
  show ?case
  proof (cases "step b ev")
    case None
    with Cons show ?thesis by simp
  next
    case (Some b')
    with Cons.prems step_inv [of b ev b'] Cons.IH [of b'] show ?thesis by simp
  qed
qed

lemma New_inv:
  "NewTokenBucket rate burst = Inr b \<Longrightarrow>
   bucket_inv b \<and> 0 \<le> burst \<and> capacity b = nat burst \<and> length (tokens b) = nat burst"
  by (auto simp: NewTokenBucket_def bucket_inv_def split: if_splits)

lemma step_removes:
  "step s ev = Some s' \<Longrightarrow> length (tokens s') < length (tokens s) \<Longrightarrow> ev = EvWait"
  by (cases ev) (auto split: if_splits)

text \<open>\<open>ReadFile\<close> from the results of its attempts, and the attempts on a sample container.\<close>

lemma ReadFile_attempts:
  assumes "exec k8s (DoneAt (int t + 5 * Second) DeadlineExceeded) pod container
             [''cat'', filePath] None False \<lparr>now = t, stdout = [], stderr = []\<rparr> = (rc1, e1, fr1)"
    and "(if rc1 \<noteq> Success
          then exec k8s (DoneAt (int t + 5 * Second) DeadlineExceeded) pod container
                 [''sed'', [], filePath] None False fr1
          else (rc1, e1, fr1)) = (rc2, e2, fr2)"
    and "(if rc2 \<noteq> Success
          then exec k8s (DoneAt (int t + 5 * Second) DeadlineExceeded) pod container
                 [''tail'', ''-n'', ''+1'', filePath] None False fr2
          else (rc2, e2, fr2)) = (rc3, e3, fr3)"
    and "(if rc3 \<noteq> Success
          then exec k8s (DoneAt (int t + 5 * Second) DeadlineExceeded) pod container
                 [''sh'', ''-c'', read_loop_script filePath] None False fr3
          else (rc3, e3, fr3)) = (rc4, e4, fr4)"
  shows "ReadFile k8s pod container filePath t = ((stdout fr4, e4), now fr4)"
  using assms by (auto simp: ReadFile_def Let_def)

lemma partial_cat_first:
  "exec (sample_k8s partial_cat) (DoneAt (int 0 + 5 * Second) DeadlineExceeded) pod container
     [''cat'', filePath] None False \<lparr>now = 0, stdout = [], stderr = []\<rparr> =
   (1, Some (CodeExitError (ErrorString ''command terminated with exit code 1'') 1),
    \<lparr>now = 1000000, stdout = ''par'', stderr = ''cat: read error''\<rparr>)"
  by (simp add: exec_def StreamWithContext_def sample_k8s_def partial_cat_def Second_def)

lemma partial_cat_second:
  "exec (sample_k8s partial_cat) (DoneAt (int 0 + 5 * Second) DeadlineExceeded) pod container
     [''sed'', [], filePath] None False \<lparr>now = 1000000, stdout = out, stderr = err\<rparr> =
   (Success, None, \<lparr>now = 2000000, stdout = out @ ''whole file'', stderr = err\<rparr>)"
  by (simp add: exec_def StreamWithContext_def sample_k8s_def partial_cat_def Second_def)

section \<open>Exit-code classification\<close>

text \<open>
  Claim C2. An error whose \<^verbatim>\<open>Unwrap\<close> chain reaches a \<open>CodeExitError\<close> with code \<open>n\<close>,
  through any number of wrappers, is classified by \<open>GetExitCode\<close> as \<open>n\<close> with the
  description the table gives for \<open>n\<close>, and as \<open>n\<close> with the text
  "Exit code n description not found!" when the table has no entry for \<open>n\<close>; code 137
  gives "Fatal error signal 9 (SIGKILL)" and code 200 gives
  "Exit code 200 description not found!". An error whose chain ends in anything else,
  and the nil error, give \<open>InternalAppError\<close> with the empty text.
\<close>

theorem GetExitCode_classifies:
  "((n, d) \<in> set exitCodeDescriptions_entries \<longrightarrow>
      GetExitCode (Some (foldr Wrapped msgs (CodeExitError e n))) = (n, d))
   \<and> (n \<notin> fst ` set exitCodeDescriptions_entries \<longrightarrow>
      GetExitCode (Some (foldr Wrapped msgs (CodeExitError e n))) =
        (n, ''Exit code '' @ fmt_d n @ '' description not found!''))
   \<and> GetExitCode (Some (foldr Wrapped msgs (CodeExitError e 137))) =
        (137, ''Fatal error signal 9 (SIGKILL)'')
   \<and> GetExitCode (Some (foldr Wrapped msgs (CodeExitError e 200))) =
        (200, ''Exit code 200 description not found!'')
   \<and> (b \<in> {DeadlineExceeded, Canceled} \<union> range ErrorString \<longrightarrow>
      GetExitCode (Some (foldr Wrapped msgs b)) = (InternalAppError, ''''))
   \<and> GetExitCode None = (InternalAppError, '''')"
proof -
  have in_table: "(n, d) \<in> set exitCodeDescriptions_entries \<longrightarrow>
      GetExitCode (Some (foldr Wrapped msgs (CodeExitError e n))) = (n, d)"
    by (simp add: GetExitCode_def As_wrapped_exit descriptions_Some)
  have not_in_table: "n \<notin> fst ` set exitCodeDescriptions_entries \<longrightarrow>
      GetExitCode (Some (foldr Wrapped msgs (CodeExitError e n))) =
        (n, ''Exit code '' @ fmt_d n @ '' description not found!'')"
    by (simp add: GetExitCode_def As_wrapped_exit descriptions_None)
  have c137: "GetExitCode (Some (foldr Wrapped msgs (CodeExitError e 137))) =
        (137, ''Fatal error signal 9 (SIGKILL)'')"
    by (simp add: GetExitCode_def As_wrapped_exit exitCodeDescriptions_def
        exitCodeDescriptions_entries_def)
  have c200: "GetExitCode (Some (foldr Wrapped msgs (CodeExitError e 200))) =
        (200, ''Exit code 200 description not found!'')"
    by (simp add: GetExitCode_def As_wrapped_exit exitCodeDescriptions_def
        exitCodeDescriptions_entries_def fmt_d_def fmt_digits.simps)
  have other: "b \<in> {DeadlineExceeded, Canceled} \<union> range ErrorString \<longrightarrow>
      GetExitCode (Some (foldr Wrapped msgs b)) = (InternalAppError, '''')"
    using As_wrapped_other [of b msgs] by (simp add: GetExitCode_def)
  have nil: "GetExitCode None = (InternalAppError, '''')"
    by (simp add: GetExitCode_def)
  from in_table not_in_table c137 c200 other nil show ?thesis by blast
qed

text \<open>The three cases at concrete errors: code 127 wrapped once, code 3, a refused connection.\<close>

theorem GetExitCode_classifies_witness:
  "GetExitCode (Some (Wrapped ''stream failed'' (CodeExitError (ErrorString ''exit'') 127))) =
     (127, ''Command not found'')
   \<and> GetExitCode (Some (CodeExitError (ErrorString ''exit'') 3)) =
     (3, ''Exit code 3 description not found!'')
   \<and> GetExitCode (Some (Wrapped ''dial'' (ErrorString ''connection refused''))) =
     (InternalAppError, '''')"
proof -
  have a: "(127, ''Command not found'') \<in> set exitCodeDescriptions_entries"
    by (simp add: exitCodeDescriptions_entries_def)
  have b: "3 \<notin> fst ` set exitCodeDescriptions_entries"
    by (simp add: exitCodeDescriptions_entries_def)
  have c: "ErrorString ''connection refused'' \<in> {DeadlineExceeded, Canceled} \<union> range ErrorString"
    by simp
  have f: "fmt_d 3 = ''3''"
    by (simp add: fmt_d_def fmt_digits.simps)
  from a GetExitCode_classifies [of 127 "''Command not found''" "[''stream failed'']"
      "ErrorString ''exit''" DeadlineExceeded]
  have 1: "GetExitCode (Some (Wrapped ''stream failed'' (CodeExitError (ErrorString ''exit'') 127))) =
     (127, ''Command not found'')" by simp
  from b GetExitCode_classifies [of 3 "[]" "[]" "ErrorString ''exit''" DeadlineExceeded] f
  have 2: "GetExitCode (Some (CodeExitError (ErrorString ''exit'') 3)) =
     (3, ''Exit code 3 description not found!'')" by simp
  from c GetExitCode_classifies [of 0 "[]" "[''dial'']" DeadlineExceeded
      "ErrorString ''connection refused''"]
  have 3: "GetExitCode (Some (Wrapped ''dial'' (ErrorString ''connection refused''))) =
     (InternalAppError, '''')" by simp
  from 1 2 3 show ?thesis by blast
qed

section \<open>Exit-code descriptions\<close>

lemma described_codes:
  "(GetExitCodeDescription c \<noteq> '''') =
     (c \<in> {- 1, 0, 1, 2, 126, 127, 128, 129, 130, 131, 132, 133, 134, 135, 136,
            137, 138, 139, 140, 141, 142, 143, 255})"
  by (simp add: GetExitCodeDescription_def exitCodeDescriptions_def
      exitCodeDescriptions_entries_def)

text \<open>
  Claim C6 as stated fails at code 1, for which the table holds a description.
\<close>

theorem GetExitCodeDescription_code_1_counterexample:
  "GetExitCodeDescription 1 = ''General error, unspecified error''
   \<and> GetExitCodeDescription 1 \<noteq> ''''"
  by (simp add: GetExitCodeDescription_def exitCodeDescriptions_def
      exitCodeDescriptions_entries_def)

text \<open>
  Claim C6, amended. \<open>GetExitCodeDescription\<close> returns a text that is not empty for
  exactly the 23 codes of the table, which are -1, 0, 1, 2, 126 to 143 and 255, 22 of
  them in the range 0 to 255, and the empty text for every other code, such as 200
  and 50.
\<close>

theorem GetExitCodeDescription_documented:
  "(GetExitCodeDescription c \<noteq> '''') =
     (c \<in> {- 1, 0, 1, 2, 126, 127, 128, 129, 130, 131, 132, 133, 134, 135, 136,
            137, 138, 139, 140, 141, 142, 143, 255})
   \<and> card {c. GetExitCodeDescription c \<noteq> ''''} = 23
   \<and> card ({c. GetExitCodeDescription c \<noteq> ''''} \<inter> {0..255}) = 22
   \<and> GetExitCodeDescription 200 = ''''
   \<and> GetExitCodeDescription 50 = ''''"
proof -
  have all: "{c. GetExitCodeDescription c \<noteq> ''''} =
      {- 1, 0, 1, 2, 126, 127, 128, 129, 130, 131, 132, 133, 134, 135, 136,
       137, 138, 139, 140, 141, 142, 143, 255}"
    unfolding described_codes by blast
  have in_range: "{c. GetExitCodeDescription c \<noteq> ''''} \<inter> {0..255} =
      {0, 1, 2, 126, 127, 128, 129, 130, 131, 132, 133, 134, 135, 136,
       137, 138, 139, 140, 141, 142, 143, 255}"
    unfolding all by auto
  have c23: "card {c. GetExitCodeDescription c \<noteq> ''''} = 23"
    unfolding all by simp
  have c22: "card ({c. GetExitCodeDescription c \<noteq> ''''} \<inter> {0..255}) = 22"
    unfolding in_range by simp
  have e200: "GetExitCodeDescription 200 = ''''"
    using described_codes [of 200] by simp
  have e50: "GetExitCodeDescription 50 = ''''"
    using described_codes [of 50] by simp
  from described_codes [of c] c23 c22 e200 e50 show ?thesis by blast
qed

text \<open>A code of the table and its neighbour outside.\<close>

theorem GetExitCodeDescription_documented_witness:
  "GetExitCodeDescription 143 \<noteq> '''' \<and> GetExitCodeDescription 144 = ''''"
  using GetExitCodeDescription_documented [of 143] GetExitCodeDescription_documented [of 144]
  by simp

section \<open>The lines of an outcome\<close>

text \<open>
  Claim C7. For every pod name, container name, exit code and error, stdout and stderr
  text, each of the fields \<open>Error\<close>, \<open>Stdout\<close> and \<open>Stderr\<close> of \<open>NewExecutionStatus\<close> is
  the split of its text on the newline: a sequence that is never empty, whose lines
  hold no newline, that has one line more than the text has newlines and that joined by
  newlines gives the text back. The text "a\nb\n" yields the lines "a", "b", "" and the
  empty text yields the single line "".
\<close>

theorem NewExecutionStatus_lines:
  "(let st = NewExecutionStatus pod container retCode error out err
    in Pod st = pod \<and> Container st = container \<and> RetCode st = retCode
       \<and> Error st \<noteq> [] \<and> Stdout st \<noteq> [] \<and> Stderr st \<noteq> []
       \<and> strings_Join (Error st) [newline] = error
       \<and> strings_Join (Stdout st) [newline] = out
       \<and> strings_Join (Stderr st) [newline] = err
       \<and> (\<forall>l \<in> set (Error st) \<union> set (Stdout st) \<union> set (Stderr st). newline \<notin> set l)
       \<and> length (Error st) = Suc (count_list error newline)
       \<and> length (Stdout st) = Suc (count_list out newline)
       \<and> length (Stderr st) = Suc (count_list err newline))
   \<and> Stdout (NewExecutionStatus pod container retCode error ''a\<newline>b\<newline>'' err) = [''a'', ''b'', '''']
   \<and> Stdout (NewExecutionStatus pod container retCode error '''' err) = ['''']"
proof -
  have ex: "strings_Split ''a\<newline>b\<newline>'' newline = [''a'', ''b'', '''']"
    by (simp add: newline_def)
  show ?thesis
    unfolding Let_def NewExecutionStatus_def
    using ex by (auto simp: Split_not_Nil Split_Join Split_length dest: Split_no_sep)
qed

text \<open>An outcome with two lines of standard error and an empty standard output.\<close>

theorem NewExecutionStatus_lines_witness:
  "Stderr (NewExecutionStatus ''pod-0'' ''app'' 2 ''command terminated with exit code 2'' []
      ''ls: x\<newline>ls: y'') = [''ls: x'', ''ls: y'']
   \<and> Stdout (NewExecutionStatus ''pod-0'' ''app'' 2 ''command terminated with exit code 2'' []
      ''ls: x\<newline>ls: y'') = ['''']"
proof -
  have "\<forall>l\<in>set (Stderr (NewExecutionStatus ''pod-0'' ''app'' 2
      ''command terminated with exit code 2'' [] ''ls: x\<newline>ls: y'')). newline \<notin> set l"
    using NewExecutionStatus_lines [of "''pod-0''" "''app''" 2
        "''command terminated with exit code 2''" "[]" "''ls: x\<newline>ls: y''"]
    by (simp add: Let_def)
  then show ?thesis
    by (simp add: NewExecutionStatus_def newline_def)
qed

section \<open>Presence of a utility\<close>

text \<open>
  Claim C10. \<open>CheckUtilInContainer\<close> reports the utility as present exactly when the
  status that \<open>exec\<close> returns for its invocation is none of \<open>CommandNotFound\<close> (127),
  \<open>CommandCannotExecute\<close> (126) and \<open>InternalAppError\<close> (-1). When the utility runs
  within the deadline and exits with status \<open>n\<close>, it is present exactly when \<open>n\<close> is
  none of the three; with status 1 or 2 it is present.
\<close>

theorem CheckUtilInContainer_present:
  "fst (CheckUtilInContainer k8s pod container util t) =
     (fst (exec k8s (WithTimeout Background (5 * Second) t) pod container [util] None False
             \<lparr>now = t, stdout = [], stderr = []\<rparr>)
        \<notin> {CommandNotFound, CommandCannotExecute, InternalAppError})
   \<and> (RemoteExec k8s pod container [util] None False = Streams run
        \<and> int (duration run) \<le> 5 * Second
        \<and> result run = Some (foldr Wrapped msgs (CodeExitError e n))
      \<longrightarrow> fst (CheckUtilInContainer k8s pod container util t) =
            (n \<noteq> CommandNotFound \<and> n \<noteq> CommandCannotExecute \<and> n \<noteq> InternalAppError))
   \<and> (RemoteExec k8s pod container [util] None False = Streams run
        \<and> int (duration run) \<le> 5 * Second
        \<and> result run = Some (foldr Wrapped msgs (CodeExitError e n))
        \<and> n \<in> {GeneralError, IncorrectUsage}
      \<longrightarrow> fst (CheckUtilInContainer k8s pod container util t))"
proof -
  have gen: "fst (CheckUtilInContainer k8s pod container util t) =
     (fst (exec k8s (WithTimeout Background (5 * Second) t) pod container [util] None False
             \<lparr>now = t, stdout = [], stderr = []\<rparr>)
        \<notin> {CommandNotFound, CommandCannotExecute, InternalAppError})"
    by (simp add: CheckUtilInContainer_def Let_def split: prod.splits)
  have ran: "fst (CheckUtilInContainer k8s pod container util t) =
            (n \<noteq> CommandNotFound \<and> n \<noteq> CommandCannotExecute \<and> n \<noteq> InternalAppError)"
    if r: "RemoteExec k8s pod container [util] None False = Streams run"
      and d: "int (duration run) \<le> 5 * Second"
      and x: "result run = Some (foldr Wrapped msgs (CodeExitError e n))"
  proof -
    from d have "int (t + duration run) \<le> int t + 5 * Second" by simp
    then have s: "StreamWithContext (DoneAt (int t + 5 * Second) DeadlineExceeded) t run =
        (Some (foldr Wrapped msgs (CodeExitError e n)), written run (duration run), t + duration run)"
      using x by (simp add: Stream_in_time)
    have "fst (exec k8s (DoneAt (int t + 5 * Second) DeadlineExceeded) pod container [util]
        None False \<lparr>now = t, stdout = [], stderr = []\<rparr>) = n"
      using exec_code [OF r, of _ "\<lparr>now = t, stdout = [], stderr = []\<rparr>"] s by simp
    with gen show ?thesis by auto
  qed
  from gen ran show ?thesis by auto
qed

text \<open>A utility that exits with status 2 is present, one that is not found is absent.\<close>

theorem CheckUtilInContainer_present_witness:
  "fst (CheckUtilInContainer (sample_k8s (exits_with 2)) ''pod-0'' ''app'' ''grep'' 0)
   \<and> \<not> fst (CheckUtilInContainer (sample_k8s (exits_with 127)) ''pod-0'' ''app'' ''grep'' 0)"
proof -
  have r: "RemoteExec (sample_k8s (exits_with n)) ''pod-0'' ''app'' [''grep''] None False =
      Streams (exit_run n)" for n
    by (simp add: sample_k8s_def exits_with_def)
  have d: "int (duration (exit_run n)) \<le> 5 * Second" for n
    by (simp add: exit_run_def Second_def)
  have x: "result (exit_run n) =
      Some (foldr Wrapped [] (CodeExitError (ErrorString ''command terminated with exit code'') n))"
    for n
    by (simp add: exit_run_def)
  have 1: "fst (CheckUtilInContainer (sample_k8s (exits_with 2)) ''pod-0'' ''app'' ''grep'' 0)"
    using CheckUtilInContainer_present [of "sample_k8s (exits_with 2)" "''pod-0''" "''app''"
        "''grep''" 0 "exit_run 2" "[]" "ErrorString ''command terminated with exit code''" 2,
        THEN conjunct2, THEN conjunct1]
      r [of 2] d [of 2] x [of 2]
    by simp
  have 2: "\<not> fst (CheckUtilInContainer (sample_k8s (exits_with 127)) ''pod-0'' ''app'' ''grep'' 0)"
    using CheckUtilInContainer_present [of "sample_k8s (exits_with 127)" "''pod-0''" "''app''"
        "''grep''" 0 "exit_run 127" "[]" "ErrorString ''command terminated with exit code''" 127,
        THEN conjunct2, THEN conjunct1]
      r [of 127] d [of 127] x [of 127]
    by simp
  from 1 2 show ?thesis by simp
qed

section \<open>Deadline expiry in the two entry points\<close>

text \<open>
  Claim C3, evaluated where it fails. A command that runs for two seconds is executed
  under a deadline of one second; it has written "par" to standard output by then.
  \<open>ExecWithContext\<close> returns the status \<open>InternalAppError\<close>, with the error text of the
  expired deadline and the partial output; \<open>Exec\<close>, given the same second as its
  timeout, returns \<open>ExecutionTimeOut\<close> with the same partial output.
\<close>

theorem ExecWithContext_deadline_not_ExecutionTimeOut:
  "RetCode (fst (ExecWithContext (sample_k8s sleeper) (DoneAt 1000000000 DeadlineExceeded)
       ''pod-0'' ''app'' [''sleep'', ''2''] None 0)) = InternalAppError
   \<and> Error (fst (ExecWithContext (sample_k8s sleeper) (DoneAt 1000000000 DeadlineExceeded)
       ''pod-0'' ''app'' [''sleep'', ''2''] None 0)) = [''context deadline exceeded'']
   \<and> Stdout (fst (ExecWithContext (sample_k8s sleeper) (DoneAt 1000000000 DeadlineExceeded)
       ''pod-0'' ''app'' [''sleep'', ''2''] None 0)) = [''par'']
   \<and> RetCode (fst (Exec (sample_k8s sleeper) ''pod-0'' ''app'' [''sleep'', ''2''] None
       1000000000 0)) = ExecutionTimeOut
   \<and> Stdout (fst (Exec (sample_k8s sleeper) ''pod-0'' ''app'' [''sleep'', ''2''] None
       1000000000 0)) = [''par'']"
  by (simp add: ExecWithContext_def Exec_def exec_def StreamWithContext_def
      NewExecutionStatus_def sample_k8s_def sleeper_def given_up_def newline_def Let_def)

section \<open>Unique pods: failures\<close>

text \<open>
  Claim C8. A group whose pod listing fails, or whose listing is empty, changes nothing:
  \<open>GetUniquePods\<close> returns what it returns for the cluster without that group among
  its deployments, its stateful sets or its daemon sets, so the enumeration goes on with
  the groups that follow. A failure of the listing of the deployments, of the stateful
  sets, of the daemon sets or of the final listing of all pods ends the call with the
  count 0, the empty list and that error. When the four listings succeed the call
  returns no error and the count of the final listing, whatever the listings of the
  single groups did.
\<close>

theorem GetUniquePods_failures:
  "(ListPods k8s (mapToLabelSelector (MatchLabels g)) = Inl e
      \<or> ListPods k8s (mapToLabelSelector (MatchLabels g)) = Inr []
    \<longrightarrow> GetUniquePods (k8s\<lparr>ListDeployments := Inr (gs1 @ g # gs2)\<rparr>) =
          GetUniquePods (k8s\<lparr>ListDeployments := Inr (gs1 @ gs2)\<rparr>)
      \<and> GetUniquePods (k8s\<lparr>ListStatefulSets := Inr (gs1 @ g # gs2)\<rparr>) =
          GetUniquePods (k8s\<lparr>ListStatefulSets := Inr (gs1 @ gs2)\<rparr>)
      \<and> GetUniquePods (k8s\<lparr>ListDaemonSets := Inr (gs1 @ g # gs2)\<rparr>) =
          GetUniquePods (k8s\<lparr>ListDaemonSets := Inr (gs1 @ gs2)\<rparr>))
   \<and> (ListDeployments k8s = Inl e \<longrightarrow> GetUniquePods k8s = (0, [], Some e))
   \<and> (ListDeployments k8s = Inr ds \<and> ListStatefulSets k8s = Inl e
      \<longrightarrow> GetUniquePods k8s = (0, [], Some e))
   \<and> (ListDeployments k8s = Inr ds \<and> ListStatefulSets k8s = Inr ss
        \<and> ListDaemonSets k8s = Inl e
      \<longrightarrow> GetUniquePods k8s = (0, [], Some e))
   \<and> (ListDeployments k8s = Inr ds \<and> ListStatefulSets k8s = Inr ss
        \<and> ListDaemonSets k8s = Inr ns \<and> ListPods k8s [] = Inl e
      \<longrightarrow> GetUniquePods k8s = (0, [], Some e))
   \<and> (ListDeployments k8s = Inr ds \<and> ListStatefulSets k8s = Inr ss
        \<and> ListDaemonSets k8s = Inr ns \<and> ListPods k8s [] = Inr podsList
      \<longrightarrow> fst (GetUniquePods k8s) = int (length podsList)
          \<and> snd (snd (GetUniquePods k8s)) = None)"
proof -
  have skip: "GetUniquePods (k8s\<lparr>ListDeployments := Inr (gs1 @ g # gs2)\<rparr>) =
          GetUniquePods (k8s\<lparr>ListDeployments := Inr (gs1 @ gs2)\<rparr>)
      \<and> GetUniquePods (k8s\<lparr>ListStatefulSets := Inr (gs1 @ g # gs2)\<rparr>) =
          GetUniquePods (k8s\<lparr>ListStatefulSets := Inr (gs1 @ gs2)\<rparr>)
      \<and> GetUniquePods (k8s\<lparr>ListDaemonSets := Inr (gs1 @ g # gs2)\<rparr>) =
          GetUniquePods (k8s\<lparr>ListDaemonSets := Inr (gs1 @ gs2)\<rparr>)"
    if h: "ListPods k8s (mapToLabelSelector (MatchLabels g)) = Inl e
      \<or> ListPods k8s (mapToLabelSelector (MatchLabels g)) = Inr []"
  proof -
    have a: "group_loop (k8s\<lparr>ListDeployments := x\<rparr>) gs acc = group_loop k8s gs acc" for x gs acc
      by (rule group_loop_only_ListPods) simp
    have b: "group_loop (k8s\<lparr>ListStatefulSets := x\<rparr>) gs acc = group_loop k8s gs acc" for x gs acc
      by (rule group_loop_only_ListPods) simp
    have c: "group_loop (k8s\<lparr>ListDaemonSets := x\<rparr>) gs acc = group_loop k8s gs acc" for x gs acc
      by (rule group_loop_only_ListPods) simp
    show ?thesis
      by (simp add: GetUniquePods_def a b c group_loop_skip [OF h]
          split: sum.splits prod.splits)
  qed
  have d: "ListDeployments k8s = Inl e \<longrightarrow> GetUniquePods k8s = (0, [], Some e)"
    by (simp add: GetUniquePods_def)
  have s: "ListDeployments k8s = Inr ds \<and> ListStatefulSets k8s = Inl e
      \<longrightarrow> GetUniquePods k8s = (0, [], Some e)"
    by (simp add: GetUniquePods_def split: prod.splits)
  have n: "ListDeployments k8s = Inr ds \<and> ListStatefulSets k8s = Inr ss
        \<and> ListDaemonSets k8s = Inl e
      \<longrightarrow> GetUniquePods k8s = (0, [], Some e)"
    by (simp add: GetUniquePods_def split: prod.splits)
  have p: "ListDeployments k8s = Inr ds \<and> ListStatefulSets k8s = Inr ss
        \<and> ListDaemonSets k8s = Inr ns \<and> ListPods k8s [] = Inl e
      \<longrightarrow> GetUniquePods k8s = (0, [], Some e)"
    by (simp add: GetUniquePods_def split: prod.splits)
  have ok: "ListDeployments k8s = Inr ds \<and> ListStatefulSets k8s = Inr ss
        \<and> ListDaemonSets k8s = Inr ns \<and> ListPods k8s [] = Inr podsList
      \<longrightarrow> fst (GetUniquePods k8s) = int (length podsList)
          \<and> snd (snd (GetUniquePods k8s)) = None"
    by (simp add: GetUniquePods_def split: prod.splits)
  from skip d s n p ok show ?thesis by blast
qed

text \<open>
  A namespace whose first deployment cannot be listed and whose second selects no pod:
  the third deployment is still represented. Namespaces whose deployments, stateful
  sets, daemon sets or pods cannot be listed: the call fails with that error. A
  namespace whose only deployment cannot be listed: the call succeeds with the count 3.
\<close>

theorem GetUniquePods_failures_witness:
  "GetUniquePods (flaky_k8s [group_selecting ''app'' ''down'', group_selecting ''app'' ''none'',
       group_selecting ''app'' ''a'']) =
     (3, [pod_named ''a1'', pod_named ''solo''], None)
   \<and> GetUniquePods (flaky_k8s [group_selecting ''app'' ''a'']
        \<lparr>ListStatefulSets := Inl (ErrorString ''forbidden'')\<rparr>) =
     (0, [], Some (ErrorString ''forbidden''))
   \<and> GetUniquePods (flaky_k8s [group_selecting ''app'' ''a'']
        \<lparr>ListDeployments := Inl (ErrorString ''forbidden'')\<rparr>) =
     (0, [], Some (ErrorString ''forbidden''))
   \<and> GetUniquePods (flaky_k8s [group_selecting ''app'' ''a'']
        \<lparr>ListDaemonSets := Inl (ErrorString ''forbidden'')\<rparr>) =
     (0, [], Some (ErrorString ''forbidden''))
   \<and> GetUniquePods (flaky_k8s [group_selecting ''app'' ''a'']
        \<lparr>ListPods := (\<lambda>selector. Inl (ErrorString ''gone''))\<rparr>) =
     (0, [], Some (ErrorString ''gone''))
   \<and> fst (GetUniquePods (flaky_k8s [group_selecting ''app'' ''down''])) = 3
   \<and> snd (snd (GetUniquePods (flaky_k8s [group_selecting ''app'' ''down'']))) = None"
proof -
  let ?down = "group_selecting ''app'' ''down''"
  let ?none = "group_selecting ''app'' ''none''"
  let ?a = "group_selecting ''app'' ''a''"
  have upd: "flaky_k8s []\<lparr>ListDeployments := Inr gs\<rparr> = flaky_k8s gs" for gs
    by (simp add: flaky_k8s_def)
  have down: "ListPods (flaky_k8s []) (mapToLabelSelector (MatchLabels ?down)) =
        Inl (ErrorString ''etcd timeout'')
      \<or> ListPods (flaky_k8s []) (mapToLabelSelector (MatchLabels ?down)) = Inr []"
    by (simp add: flaky_k8s_def mapToLabelSelector_def group_selecting_def)
  have none: "ListPods (flaky_k8s []) (mapToLabelSelector (MatchLabels ?none)) =
        Inl (ErrorString ''etcd timeout'')
      \<or> ListPods (flaky_k8s []) (mapToLabelSelector (MatchLabels ?none)) = Inr []"
    by (simp add: flaky_k8s_def mapToLabelSelector_def group_selecting_def)
  from GetUniquePods_failures [where ?k8s = "flaky_k8s []" and ?g = ?down
      and ?e = "ErrorString ''etcd timeout''" and ?gs1.0 = "[]" and ?gs2.0 = "[?none, ?a]",
      THEN conjunct1, THEN mp, OF down, THEN conjunct1]
  have 1: "GetUniquePods (flaky_k8s [?down, ?none, ?a]) = GetUniquePods (flaky_k8s [?none, ?a])"
    by (simp add: upd)
  from GetUniquePods_failures [where ?k8s = "flaky_k8s []" and ?g = ?none
      and ?e = "ErrorString ''etcd timeout''" and ?gs1.0 = "[]" and ?gs2.0 = "[?a]",
      THEN conjunct1, THEN mp, OF none, THEN conjunct1]
  have 2: "GetUniquePods (flaky_k8s [?none, ?a]) = GetUniquePods (flaky_k8s [?a])"
    by (simp add: upd)
  have 3: "GetUniquePods (flaky_k8s [?a]) = (3, [pod_named ''a1'', pod_named ''solo''], None)"
    by (simp add: GetUniquePods_def flaky_k8s_def GetPods_def mapToLabelSelector_def
        group_selecting_def pod_named_def)
  have f: "ListDeployments (flaky_k8s [?a]\<lparr>ListStatefulSets := Inl (ErrorString ''forbidden'')\<rparr>)
        = Inr [?a]
      \<and> ListStatefulSets (flaky_k8s [?a]\<lparr>ListStatefulSets := Inl (ErrorString ''forbidden'')\<rparr>)
        = Inl (ErrorString ''forbidden'')"
    by (simp add: flaky_k8s_def)
  from GetUniquePods_failures [where
      ?k8s = "flaky_k8s [?a]\<lparr>ListStatefulSets := Inl (ErrorString ''forbidden'')\<rparr>"
      and ?e = "ErrorString ''forbidden''" and ?ds = "[?a]",
      THEN conjunct2, THEN conjunct2, THEN conjunct1, THEN mp, OF f]
  have 4: "GetUniquePods (flaky_k8s [?a]\<lparr>ListStatefulSets := Inl (ErrorString ''forbidden'')\<rparr>) =
     (0, [], Some (ErrorString ''forbidden''))" .
  have g: "ListDeployments (flaky_k8s [?a]\<lparr>ListDeployments := Inl (ErrorString ''forbidden'')\<rparr>)
        = Inl (ErrorString ''forbidden'')"
    by simp
  from GetUniquePods_failures [where
      ?k8s = "flaky_k8s [?a]\<lparr>ListDeployments := Inl (ErrorString ''forbidden'')\<rparr>"
      and ?e = "ErrorString ''forbidden''",
      THEN conjunct2, THEN conjunct1, THEN mp, OF g]
  have 5: "GetUniquePods (flaky_k8s [?a]\<lparr>ListDeployments := Inl (ErrorString ''forbidden'')\<rparr>) =
     (0, [], Some (ErrorString ''forbidden''))" .
  have h: "ListDeployments (flaky_k8s [?a]\<lparr>ListDaemonSets := Inl (ErrorString ''forbidden'')\<rparr>)
        = Inr [?a]
      \<and> ListStatefulSets (flaky_k8s [?a]\<lparr>ListDaemonSets := Inl (ErrorString ''forbidden'')\<rparr>)
        = Inr []
      \<and> ListDaemonSets (flaky_k8s [?a]\<lparr>ListDaemonSets := Inl (ErrorString ''forbidden'')\<rparr>)
        = Inl (ErrorString ''forbidden'')"
    by (simp add: flaky_k8s_def)
  from GetUniquePods_failures [where
      ?k8s = "flaky_k8s [?a]\<lparr>ListDaemonSets := Inl (ErrorString ''forbidden'')\<rparr>"
      and ?e = "ErrorString ''forbidden''" and ?ds = "[?a]" and ?ss = "[]",
      THEN conjunct2, THEN conjunct2, THEN conjunct2, THEN conjunct1, THEN mp, OF h]
  have 6: "GetUniquePods (flaky_k8s [?a]\<lparr>ListDaemonSets := Inl (ErrorString ''forbidden'')\<rparr>) =
     (0, [], Some (ErrorString ''forbidden''))" .
  let ?gone = "flaky_k8s [?a]\<lparr>ListPods := (\<lambda>selector. Inl (ErrorString ''gone''))\<rparr>"
  have i: "ListDeployments ?gone = Inr [?a] \<and> ListStatefulSets ?gone = Inr []
      \<and> ListDaemonSets ?gone = Inr [] \<and> ListPods ?gone [] = Inl (ErrorString ''gone'')"
    by (simp add: flaky_k8s_def)
  from GetUniquePods_failures [where ?k8s = ?gone
      and ?e = "ErrorString ''gone''" and ?ds = "[?a]" and ?ss = "[]" and ?ns = "[]",
      THEN conjunct2, THEN conjunct2, THEN conjunct2, THEN conjunct2, THEN conjunct1,
      THEN mp, OF i]
  have 7: "GetUniquePods ?gone = (0, [], Some (ErrorString ''gone''))" .
  have j: "ListDeployments (flaky_k8s [?down]) = Inr [?down]
      \<and> ListStatefulSets (flaky_k8s [?down]) = Inr []
      \<and> ListDaemonSets (flaky_k8s [?down]) = Inr []
      \<and> ListPods (flaky_k8s [?down]) [] =
          Inr [pod_named ''a1'', pod_named ''a2'', pod_named ''solo'']"
    by (simp add: flaky_k8s_def)
  from GetUniquePods_failures [where ?k8s = "flaky_k8s [?down]"
      and ?ds = "[?down]" and ?ss = "[]" and ?ns = "[]"
      and ?podsList = "[pod_named ''a1'', pod_named ''a2'', pod_named ''solo'']",
      THEN conjunct2, THEN conjunct2, THEN conjunct2, THEN conjunct2, THEN conjunct2,
      THEN mp, OF j]
  have 8: "fst (GetUniquePods (flaky_k8s [?down])) = 3
      \<and> snd (snd (GetUniquePods (flaky_k8s [?down]))) = None"
    by simp
  from 1 2 3 4 5 6 7 8 show ?thesis by simp
qed

section \<open>Unique pods: a pod listed first by two groups\<close>

text \<open>
  Claim C1, evaluated where it fails. Two deployments select three pods each and the pod
  "shared" is the first of both listings; the namespace holds a sixth pod, "solo", that
  no group selects. \<open>GetUniquePods\<close> returns the total 6 and a list in which "shared"
  stands twice, once for each deployment, before "solo": the list has a duplicate.
  The total, the first match of every group and the remainder in the order of the
  listing are as the claim says, which \<open>GetUniquePods_result\<close> shows for every cluster.
\<close>

theorem GetUniquePods_shared_first_pod_twice:
  "GetUniquePods overlap_k8s =
     (6, [pod_named ''shared'', pod_named ''shared'', pod_named ''solo''], None)
   \<and> \<not> distinct (fst (snd (GetUniquePods overlap_k8s)))"
proof -
  have "GetUniquePods overlap_k8s =
     (6, [pod_named ''shared'', pod_named ''shared'', pod_named ''solo''], None)"
    by (simp add: GetUniquePods_def overlap_k8s_def GetPods_def mapToLabelSelector_def
        group_selecting_def pod_named_def)
  then show ?thesis by simp
qed

section \<open>The token bucket stays within its capacity\<close>

text \<open>
  Claim C4. A bucket created with capacity \<open>burst\<close> starts with \<open>burst\<close> tokens. After
  any schedule of receives by \<open>Wait\<close> and of steps of the refill goroutine the count of
  tokens is between 0 and \<open>burst\<close>, and the send of the refill goroutine never finds the
  channel full. On a full bucket a tick adds nothing and leaves nothing behind: the
  state is unchanged, and a \<open>Wait\<close> that follows is not made up for without a new tick.
  A step that lowers the count is a \<open>Wait\<close>, and it takes one token.
\<close>

theorem TokenBucket_bounded:
  "NewTokenBucket rate burst = Inr b \<Longrightarrow>
   int (length (tokens b)) = burst
   \<and> 0 \<le> int (length (tokens (run_events b evs)))
   \<and> int (length (tokens (run_events b evs))) \<le> burst
   \<and> (refill (run_events b evs) = Sending \<longrightarrow> step (run_events b evs) EvSend \<noteq> None)
   \<and> (int (length (tokens (run_events b evs))) = burst \<longrightarrow>
        run_events (run_events b evs) [EvTick, EvSend] = run_events b evs
        \<and> tokens (run_events (run_events b evs) [EvTick, EvWait, EvSend]) =
            tl (tokens (run_events b evs)))
   \<and> (step (run_events b evs) ev = Some s'
        \<and> length (tokens s') < length (tokens (run_events b evs)) \<longrightarrow>
        ev = EvWait \<and> Suc (length (tokens s')) = length (tokens (run_events b evs)))"
proof -
  assume new: "NewTokenBucket rate burst = Inr b"
  define s where "s = run_events b evs"
  from New_inv [OF new] have b: "bucket_inv b" "0 \<le> burst" "capacity b = nat burst"
    "length (tokens b) = nat burst" by simp_all
  from run_events_inv [OF b(1), of evs] have s: "bucket_inv s" "capacity s = nat burst"
    by (simp_all add: s_def b(3))
  have 1: "int (length (tokens b)) = burst" using b by simp
  have 2: "0 \<le> int (length (tokens s))" by simp
  have 3: "int (length (tokens s)) \<le> burst"
  proof -
    from s have "length (tokens s) \<le> nat burst" by (simp add: bucket_inv_def)
    with b(2) show ?thesis by linarith
  qed
  have 4: "refill s = Sending \<longrightarrow> step s EvSend \<noteq> None"
    using s(1) by (auto simp: bucket_inv_def split: if_splits)
  have 5: "run_events s [EvTick, EvSend] = s
        \<and> tokens (run_events s [EvTick, EvWait, EvSend]) = tl (tokens s)"
    if "int (length (tokens s)) = burst"
  proof -
    from that s b(2) have full: "length (tokens s) = capacity s" by simp
    with s(1) have ns: "refill s \<noteq> Sending" by (auto simp: bucket_inv_def)
    from full ns show ?thesis
      by (cases "refill s") (auto split: list.splits)
  qed
  have 6: "ev = EvWait \<and> Suc (length (tokens s')) = length (tokens s)"
    if "step s ev = Some s'" "length (tokens s') < length (tokens s)"
    using that by (cases ev) (auto split: if_splits list.splits)
  from 1 2 3 4 5 6 show ?thesis unfolding s_def by blast
qed

text \<open>
  A bucket of capacity 2 under a schedule with a tick on the full bucket, three receives
  and a refill: one token is left and the pending send of the refill goroutine can be
  taken. On the full bucket a tick changes nothing, and a receive after it leaves one
  token.
\<close>

theorem TokenBucket_bounded_witness:
  "length (tokens (run_events
      \<lparr>tokens = [(), ()], capacity = 2, refill = Ticking\<rparr>
      [EvTick, EvSend, EvWait, EvWait, EvWait, EvTick, EvWait, EvSend, EvTick])) = 1
   \<and> step (run_events
      \<lparr>tokens = [(), ()], capacity = 2, refill = Ticking\<rparr>
      [EvTick, EvSend, EvWait, EvWait, EvWait, EvTick, EvWait, EvSend, EvTick]) EvSend \<noteq> None
   \<and> run_events \<lparr>tokens = [(), ()], capacity = 2, refill = Ticking\<rparr> [EvTick, EvSend] =
       \<lparr>tokens = [(), ()], capacity = 2, refill = Ticking\<rparr>
   \<and> tokens (run_events \<lparr>tokens = [(), ()], capacity = 2, refill = Ticking\<rparr>
        [EvTick, EvWait, EvSend]) = [()]"
proof -
  let ?b = "\<lparr>tokens = [(), ()], capacity = 2, refill = Ticking\<rparr>"
  let ?evs = "[EvTick, EvSend, EvWait, EvWait, EvWait, EvTick, EvWait, EvSend, EvTick]"
  have new: "NewTokenBucket 10 2 = Inr ?b"
    by (simp add: NewTokenBucket_def ticker_starts_def Second_def numeral_2_eq_2)
  have after: "run_events ?b ?evs = \<lparr>tokens = [()], capacity = 2, refill = Sending\<rparr>"
    by simp
  have "int (length (tokens (run_events ?b ?evs))) \<le> 2"
    using TokenBucket_bounded [OF new, of ?evs EvWait ?b,
        THEN conjunct2, THEN conjunct2, THEN conjunct1]
    by blast
  then have 1: "length (tokens (run_events ?b ?evs)) = 1"
    by simp
  have sending: "refill (run_events ?b ?evs) = Sending"
    by (simp only: after TokenBucket.simps)
  have 2: "step (run_events ?b ?evs) EvSend \<noteq> None"
    using TokenBucket_bounded [OF new, of ?evs EvWait ?b,
        THEN conjunct2, THEN conjunct2, THEN conjunct2, THEN conjunct1, THEN mp, OF sending] .
  have full: "int (length (tokens (run_events ?b []))) = 2"
    by simp
  from TokenBucket_bounded [OF new, of "[]" EvWait ?b,
        THEN conjunct2, THEN conjunct2, THEN conjunct2, THEN conjunct2, THEN conjunct1,
        THEN mp, OF full]
  have 3: "run_events ?b [EvTick, EvSend] = ?b
      \<and> tokens (run_events ?b [EvTick, EvWait, EvSend]) = [()]"
    by simp
  from 1 2 3 show ?thesis by blast
qed

section \<open>The deadline of a file probe\<close>

text \<open>
  Claim C9 as stated fails. On a container without \<open>stat\<close> where every command takes
  three seconds, the second attempt of \<open>CheckIfFilePathExists\<close>, the shell test, starts at
  second 3 under the deadline set at the call, second 5: the transport gives it up there,
  after two seconds, and the probe reports that the file does not exist. Under a
  deadline of five seconds of its own the same attempt ends at second 6 with status 0.
\<close>

theorem CheckIfFilePathExists_second_attempt_counterexample:
  "CheckIfFilePathExists (sample_k8s slow_without_stat) ''pod-0'' ''app'' ''/etc/hosts'' 0 =
     (False, 5000000000)
   \<and> exec (sample_k8s slow_without_stat) (WithTimeout Background (5 * Second) 3000000000)
        ''pod-0'' ''app''
        [''sh'', ''-c'', ''[ -f '' @ [CHR 0x27] @ ''/etc/hosts'' @ [CHR 0x27] @ '' ]'']
        None False \<lparr>now = 3000000000, stdout = [], stderr = []\<rparr> =
     (Success, None, \<lparr>now = 6000000000, stdout = [], stderr = []\<rparr>)"
proof -
  let ?k = "sample_k8s slow_without_stat"
  let ?test = "[''sh'', ''-c'', ''[ -f '' @ [CHR 0x27] @ ''/etc/hosts'' @ [CHR 0x27] @ '' ]'']"
  have 1: "exec ?k (DoneAt (int 0 + 5 * Second) DeadlineExceeded) ''pod-0'' ''app''
        [''stat'', ''/etc/hosts''] None False \<lparr>now = 0, stdout = [], stderr = []\<rparr> =
      (127, Some (CodeExitError (ErrorString ''command terminated with exit code 127'') 127),
       \<lparr>now = 3000000000, stdout = [], stderr = []\<rparr>)"
    by (simp add: exec_def StreamWithContext_def sample_k8s_def slow_without_stat_def Second_def)
  have 2: "exec ?k (DoneAt (int 0 + 5 * Second) DeadlineExceeded) ''pod-0'' ''app'' ?test
        None False \<lparr>now = 3000000000, stdout = [], stderr = []\<rparr> =
      (InternalAppError, Some DeadlineExceeded,
       \<lparr>now = 5000000000, stdout = [], stderr = []\<rparr>)"
    by (simp add: exec_def StreamWithContext_def sample_k8s_def slow_without_stat_def
        given_up_def Second_def)
  have own: "exec ?k (WithTimeout Background (5 * Second) 3000000000) ''pod-0'' ''app'' ?test
        None False \<lparr>now = 3000000000, stdout = [], stderr = []\<rparr> =
      (Success, None, \<lparr>now = 6000000000, stdout = [], stderr = []\<rparr>)"
    by (simp add: exec_def StreamWithContext_def sample_k8s_def slow_without_stat_def Second_def)
  have "CheckIfFilePathExists ?k ''pod-0'' ''app'' ''/etc/hosts'' 0 = (False, 5000000000)"
    using 1 2 by (simp add: CheckIfFilePathExists_def)
  with own show ?thesis by simp
qed

text \<open>
  Claim C9, amended. Each of \<open>ReadFile\<close>, \<open>CheckIfFilePathIsReadable\<close> and
  \<open>CheckIfFilePathExists\<close> sets one deadline, five seconds after it is called, and every
  attempt it makes runs under that deadline: the result of the probe is the result of
  its attempts run one after the other under the context that is done at the time of
  the call plus five seconds. So a later attempt has only what is left of the deadline:
  when \<open>stat\<close> fails in time and the shell test would end after the deadline of the
  call, the probe returns what the transport answers to that deadline, however short
  the test is by itself.
\<close>

theorem probes_share_one_deadline:
  "(exec k8s (DoneAt (int t + 5 * Second) DeadlineExceeded) pod container
        [''cat'', filePath] None False \<lparr>now = t, stdout = [], stderr = []\<rparr> = (rc1, e1, fr1)
      \<and> (if rc1 \<noteq> Success
          then exec k8s (DoneAt (int t + 5 * Second) DeadlineExceeded) pod container
                 [''sed'', [], filePath] None False fr1
          else (rc1, e1, fr1)) = (rc2, e2, fr2)
      \<and> (if rc2 \<noteq> Success
          then exec k8s (DoneAt (int t + 5 * Second) DeadlineExceeded) pod container
                 [''tail'', ''-n'', ''+1'', filePath] None False fr2
          else (rc2, e2, fr2)) = (rc3, e3, fr3)
      \<and> (if rc3 \<noteq> Success
          then exec k8s (DoneAt (int t + 5 * Second) DeadlineExceeded) pod container
                 [''sh'', ''-c'', read_loop_script filePath] None False fr3
          else (rc3, e3, fr3)) = (rc4, e4, fr4)
    \<longrightarrow> ReadFile k8s pod container filePath t = ((stdout fr4, e4), now fr4))
   \<and> (exec k8s (DoneAt (int t + 5 * Second) DeadlineExceeded) pod container
        [''stat'', ''-c'', ''%a'', filePath] None False
        \<lparr>now = t, stdout = [], stderr = []\<rparr> = (rc1, e1, fr1)
      \<and> rc1 \<noteq> Success
      \<and> exec k8s (DoneAt (int t + 5 * Second) DeadlineExceeded) pod container
          [''sh'', ''-c'', ''test -r '' @ [CHR 0x27] @ filePath @ [CHR 0x27]] None False fr1 =
          (rc2, e2, fr2)
    \<longrightarrow> CheckIfFilePathIsReadable k8s pod container filePath t = (rc2 = Success, now fr2))
   \<and> (exec k8s (DoneAt (int t + 5 * Second) DeadlineExceeded) pod container
        [''stat'', filePath] None False \<lparr>now = t, stdout = [], stderr = []\<rparr> = (rc1, e1, fr1)
      \<and> (if rc1 \<noteq> Success
          then exec k8s (DoneAt (int t + 5 * Second) DeadlineExceeded) pod container
                 [''sh'', ''-c'', ''[ -f '' @ [CHR 0x27] @ filePath @ [CHR 0x27] @ '' ]'']
                 None False fr1
          else (rc1, e1, fr1)) = (rc2, e2, fr2)
    \<longrightarrow> CheckIfFilePathExists k8s pod container filePath t = (rc2 = Success, now fr2))
   \<and> (RemoteExec k8s pod container [''stat'', filePath] None False = Streams r1
      \<and> int (t + duration r1) \<le> int t + 5 * Second
      \<and> result r1 = Some (CodeExitError x n) \<and> n \<noteq> Success
      \<and> RemoteExec k8s pod container
          [''sh'', ''-c'', ''[ -f '' @ [CHR 0x27] @ filePath @ [CHR 0x27] @ '' ]'']
          None False = Streams r2
      \<and> int t + 5 * Second < int (t + duration r1 + duration r2)
      \<and> interrupted r2 (int t + 5 * Second) DeadlineExceeded (t + duration r1) = (Some e, w, t')
      \<and> errors_As_CodeExitError e = None
    \<longrightarrow> CheckIfFilePathExists k8s pod container filePath t = (False, t'))"
proof -
  let ?ctx = "DoneAt (int t + 5 * Second) DeadlineExceeded"
  let ?fr = "\<lparr>now = t, stdout = [], stderr = []\<rparr>"
  let ?test = "[''sh'', ''-c'', ''[ -f '' @ [CHR 0x27] @ filePath @ [CHR 0x27] @ '' ]'']"
  have rf: "ReadFile k8s pod container filePath t = ((stdout fr4, e4), now fr4)"
    if "exec k8s ?ctx pod container [''cat'', filePath] None False ?fr = (rc1, e1, fr1)"
      and "(if rc1 \<noteq> Success
          then exec k8s ?ctx pod container [''sed'', [], filePath] None False fr1
          else (rc1, e1, fr1)) = (rc2, e2, fr2)"
      and "(if rc2 \<noteq> Success
          then exec k8s ?ctx pod container [''tail'', ''-n'', ''+1'', filePath] None False fr2
          else (rc2, e2, fr2)) = (rc3, e3, fr3)"
      and "(if rc3 \<noteq> Success
          then exec k8s ?ctx pod container [''sh'', ''-c'', read_loop_script filePath]
                 None False fr3
          else (rc3, e3, fr3)) = (rc4, e4, fr4)"
    using that by (rule ReadFile_attempts)
  have cr: "CheckIfFilePathIsReadable k8s pod container filePath t = (rc2 = Success, now fr2)"
    if "exec k8s ?ctx pod container [''stat'', ''-c'', ''%a'', filePath] None False ?fr =
          (rc1, e1, fr1)"
      and "rc1 \<noteq> Success"
      and "exec k8s ?ctx pod container
          [''sh'', ''-c'', ''test -r '' @ [CHR 0x27] @ filePath @ [CHR 0x27]] None False fr1 =
          (rc2, e2, fr2)"
    using that by (auto simp: CheckIfFilePathIsReadable_def Let_def)
  have ce: "CheckIfFilePathExists k8s pod container filePath t = (rc2 = Success, now fr2)"
    if "exec k8s ?ctx pod container [''stat'', filePath] None False ?fr = (rc1, e1, fr1)"
      and "(if rc1 \<noteq> Success
          then exec k8s ?ctx pod container ?test None False fr1
          else (rc1, e1, fr1)) = (rc2, e2, fr2)"
    for rc1 e1 fr1 rc2 e2 fr2
    using that by (auto simp: CheckIfFilePathExists_def Let_def)
  have left: "CheckIfFilePathExists k8s pod container filePath t = (False, t')"
    if r1: "RemoteExec k8s pod container [''stat'', filePath] None False = Streams r1"
      and d1: "int (t + duration r1) \<le> int t + 5 * Second"
      and x1: "result r1 = Some (CodeExitError x n)" and n: "n \<noteq> Success"
      and r2: "RemoteExec k8s pod container ?test None False = Streams r2"
      and d2: "int t + 5 * Second < int (t + duration r1 + duration r2)"
      and i2: "interrupted r2 (int t + 5 * Second) DeadlineExceeded (t + duration r1) =
          (Some e, w, t')"
      and a2: "errors_As_CodeExitError e = None"
  proof -
    let ?fr1 = "\<lparr>now = t + duration r1, stdout = fst (written r1 (duration r1)),
        stderr = snd (written r1 (duration r1))\<rparr>"
    let ?fr2 = "\<lparr>now = t', stdout = stdout ?fr1 @ fst w, stderr = stderr ?fr1 @ snd w\<rparr>"
    have 1: "exec k8s ?ctx pod container [''stat'', filePath] None False ?fr =
        (n, Some (CodeExitError x n), ?fr1)"
      using r1 d1 x1 by (simp add: exec_def StreamWithContext_def split: prod.splits)
    have 2: "exec k8s ?ctx pod container ?test None False ?fr1 =
        (InternalAppError, Some e, ?fr2)"
      using r2 d2 i2 a2 by (simp add: exec_def StreamWithContext_def split: prod.splits)
    from n 2 have 3: "(if n \<noteq> Success
          then exec k8s ?ctx pod container ?test None False ?fr1
          else (n, Some (CodeExitError x n), ?fr1)) = (InternalAppError, Some e, ?fr2)"
      by simp
    from ce [OF 1 3] show ?thesis by simp
  qed
  from rf cr ce left show ?thesis by blast
qed

text \<open>
  On the container without \<open>stat\<close>: the shell test of \<open>CheckIfFilePathExists\<close>, which
  takes three seconds, is met at second 5 by the deadline of the call; \<open>ReadFile\<close> is
  done after its first attempt.
\<close>

theorem probes_share_one_deadline_witness:
  "CheckIfFilePathExists (sample_k8s slow_without_stat) ''pod-1'' ''app'' ''/etc/passwd'' 1000 =
     (False, 5000001000)
   \<and> ReadFile (sample_k8s slow_without_stat) ''pod-1'' ''app'' ''/etc/passwd'' 1000 =
     (([], None), 3000001000)"
proof -
  let ?k = "sample_k8s slow_without_stat"
  let ?ctx = "DoneAt (int 1000 + 5 * Second) DeadlineExceeded"
  let ?stat = "\<lparr>duration = 3000000000, written = (\<lambda>d. ([], [])),
      result = Some (CodeExitError (ErrorString ''command terminated with exit code 127'') 127),
      interrupted = given_up (\<lambda>d. ([], []))\<rparr>"
  let ?other = "\<lparr>duration = 3000000000, written = (\<lambda>d. ([], [])), result = None,
      interrupted = given_up (\<lambda>d. ([], []))\<rparr>"
  have h: "RemoteExec ?k ''pod-1'' ''app'' [''stat'', ''/etc/passwd''] None False = Streams ?stat
      \<and> int (1000 + duration ?stat) \<le> int 1000 + 5 * Second
      \<and> result ?stat =
          Some (CodeExitError (ErrorString ''command terminated with exit code 127'') 127)
      \<and> (127::int) \<noteq> Success
      \<and> RemoteExec ?k ''pod-1'' ''app''
          [''sh'', ''-c'', ''[ -f '' @ [CHR 0x27] @ ''/etc/passwd'' @ [CHR 0x27] @ '' ]'']
          None False = Streams ?other
      \<and> int 1000 + 5 * Second < int (1000 + duration ?stat + duration ?other)
      \<and> interrupted ?other (int 1000 + 5 * Second) DeadlineExceeded (1000 + duration ?stat) =
          (Some DeadlineExceeded, ([], []), 5000001000)
      \<and> errors_As_CodeExitError DeadlineExceeded = None"
    by (simp add: sample_k8s_def slow_without_stat_def given_up_def Second_def)
  from probes_share_one_deadline [where ?k8s = ?k and ?t = 1000 and ?pod = "''pod-1''"
      and ?container = "''app''" and ?filePath = "''/etc/passwd''"
      and ?r1.0 = ?stat and ?r2.0 = ?other
      and ?x = "ErrorString ''command terminated with exit code 127''" and ?n = 127
      and ?e = DeadlineExceeded and ?w = "([], [])" and ?t' = 5000001000,
      THEN conjunct2, THEN conjunct2, THEN conjunct2, THEN mp, OF h]
  have 1: "CheckIfFilePathExists ?k ''pod-1'' ''app'' ''/etc/passwd'' 1000 = (False, 5000001000)" .
  let ?done = "(Success, None, \<lparr>now = 3000001000, stdout = [], stderr = []\<rparr>)"
  have g: "exec ?k ?ctx ''pod-1'' ''app'' [''cat'', ''/etc/passwd''] None False
        \<lparr>now = 1000, stdout = [], stderr = []\<rparr> = ?done
      \<and> (if Success \<noteq> Success
          then exec ?k ?ctx ''pod-1'' ''app'' [''sed'', [], ''/etc/passwd''] None False
                 \<lparr>now = 3000001000, stdout = [], stderr = []\<rparr>
          else ?done) = ?done
      \<and> (if Success \<noteq> Success
          then exec ?k ?ctx ''pod-1'' ''app'' [''tail'', ''-n'', ''+1'', ''/etc/passwd'']
                 None False \<lparr>now = 3000001000, stdout = [], stderr = []\<rparr>
          else ?done) = ?done
      \<and> (if Success \<noteq> Success
          then exec ?k ?ctx ''pod-1'' ''app'' [''sh'', ''-c'', read_loop_script ''/etc/passwd'']
                 None False \<lparr>now = 3000001000, stdout = [], stderr = []\<rparr>
          else ?done) = ?done"
    by (simp add: exec_def StreamWithContext_def sample_k8s_def slow_without_stat_def Second_def)
  from probes_share_one_deadline [where ?k8s = ?k and ?t = 1000 and ?pod = "''pod-1''"
      and ?container = "''app''" and ?filePath = "''/etc/passwd''"
      and ?rc1.0 = Success and ?e1.0 = None
      and ?fr1.0 = "\<lparr>now = 3000001000, stdout = [], stderr = []\<rparr>"
      and ?rc2.0 = Success and ?e2.0 = None
      and ?fr2.0 = "\<lparr>now = 3000001000, stdout = [], stderr = []\<rparr>"
      and ?rc3.0 = Success and ?e3.0 = None
      and ?fr3.0 = "\<lparr>now = 3000001000, stdout = [], stderr = []\<rparr>"
      and ?rc4.0 = Success and ?e4.0 = None
      and ?fr4.0 = "\<lparr>now = 3000001000, stdout = [], stderr = []\<rparr>",
      THEN conjunct1, THEN mp, OF g]
  have 2: "ReadFile ?k ''pod-1'' ''app'' ''/etc/passwd'' 1000 = (([], None), 3000001000)"
    by simp
  from 1 2 show ?thesis by simp
qed

section \<open>ReadFile after a failed attempt that wrote output\<close>

text \<open>
  Claim C5, evaluated where it fails. On a container where \<open>cat\<close> writes "par" to
  standard output and exits with status 1, and \<open>sed\<close> then writes "whole file" and
  exits with status 0, \<open>ReadFile\<close> stops after the second attempt and returns no error,
  but the text it returns is "parwhole file": the buffer that the attempts share still
  holds the output of the failed first attempt. The output of the first successful
  attempt alone is "whole file".
\<close>

theorem ReadFile_returns_output_of_failed_attempt:
  "ReadFile (sample_k8s partial_cat) ''pod-0'' ''app'' ''/etc/hosts'' 0 =
     ((''parwhole file'', None), 2000000)
   \<and> exec (sample_k8s partial_cat) (WithTimeout Background (5 * Second) 0)
        ''pod-0'' ''app'' [''sed'', [], ''/etc/hosts''] None False
        \<lparr>now = 1000000, stdout = [], stderr = []\<rparr> =
     (Success, None, \<lparr>now = 2000000, stdout = ''whole file'', stderr = []\<rparr>)"
proof -
  let ?k = "sample_k8s partial_cat"
  let ?ctx = "DoneAt (int 0 + 5 * Second) DeadlineExceeded"
  let ?ok = "(Success, None,
      \<lparr>now = 2000000, stdout = ''par'' @ ''whole file'', stderr = ''cat: read error''\<rparr>)"
  have 2: "(if (1::int) \<noteq> Success
        then exec ?k ?ctx ''pod-0'' ''app'' [''sed'', [], ''/etc/hosts''] None False
               \<lparr>now = 1000000, stdout = ''par'', stderr = ''cat: read error''\<rparr>
        else (1, Some (CodeExitError (ErrorString ''command terminated with exit code 1'') 1),
              \<lparr>now = 1000000, stdout = ''par'', stderr = ''cat: read error''\<rparr>)) = ?ok"
    using partial_cat_second [of "''pod-0''" "''app''" "''/etc/hosts''" "''par''"
        "''cat: read error''"]
    by simp
  have 3: "(if Success \<noteq> Success
        then exec ?k ?ctx ''pod-0'' ''app'' [''tail'', ''-n'', ''+1'', ''/etc/hosts''] None False
               \<lparr>now = 2000000, stdout = ''par'' @ ''whole file'', stderr = ''cat: read error''\<rparr>
        else ?ok) = ?ok"
    by simp
  have 4: "(if Success \<noteq> Success
        then exec ?k ?ctx ''pod-0'' ''app'' [''sh'', ''-c'', read_loop_script ''/etc/hosts'']
               None False
               \<lparr>now = 2000000, stdout = ''par'' @ ''whole file'', stderr = ''cat: read error''\<rparr>
        else ?ok) = ?ok"
    by simp
  from ReadFile_attempts [OF partial_cat_first 2 3 4]
  have "ReadFile ?k ''pod-0'' ''app'' ''/etc/hosts'' 0 = ((''parwhole file'', None), 2000000)"
    by simp
  then show ?thesis
    using partial_cat_second [of "''pod-0''" "''app''" "''/etc/hosts''" "[]" "[]"] by simp
qed

end
